theory Spec2Isabelle
  imports Main
begin

section \<open>Data model\<close>

text \<open>
  The identity-binding engine of the \<open>object\<close> package: the binding table, the
  derivation of a credential from a user record, bind, unbind, the transactional merge
  of two users, and the login by credential. Strings are compared byte for byte, as
  Go's \<open>==\<close> does; the \<open>WHERE\<close> clauses of the storage layer are read the same way.
\<close>

subsection \<open>Rows\<close>

text \<open>\<open>type UserIdentityBinding struct\<close>, with its Go field names.\<close>

record UserIdentityBinding =
  Id :: string
  UniversalId :: string
  AuthType :: string
  AuthValue :: string
  CreatedTime :: string

text \<open>\<open>type AuthMethod struct\<close>; the fields carry their JSON names.\<close>

record AuthMethod =
  auth_type :: string
  auth_value :: string

text \<open>\<open>type MergeResult struct\<close>; the fields carry their JSON names.\<close>

record MergeResult =
  universal_id :: string
  deleted_user_id :: string
  merged_auth_methods :: "AuthMethod list"

text \<open>
  Modelled from the spec: the struct \<open>User\<close> is declared outside the files at
  hand. The record has the fields that the engine reads (the account's universal
  identity, its deletion flag and one field for each provider);
  \<open>UserUniversalId\<close> is the field \<open>UniversalId\<close>, and the
  \<open>Properties\<close> map is a list of its entries (a nil map is the empty list: both yield
  the empty string on lookup).
\<close>

record User =
  Owner :: string
  Name :: string
  UserUniversalId :: string
  IsDeleted :: bool
  Password :: string
  Email :: string
  Phone :: string
  GitHub :: string
  Google :: string
  WeChat :: string
  QQ :: string
  Facebook :: string
  DingTalk :: string
  Weibo :: string
  Ldap :: string
  Custom :: string
  Properties :: "(string \<times> string) list"

text \<open>
  Modelled from the spec: \<open>User.GetId\<close> is not among the files at hand; the account
  reference is the \<open>owner/name\<close> composite.
\<close>

definition GetId :: "User \<Rightarrow> string" where
  "GetId u = Owner u @ ''/'' @ Name u"

text \<open>
  Modelled from the spec: the structs of the dependent tables (\<open>Token\<close>,
  \<open>Session\<close>, \<open>VerificationRecord\<close>, \<open>Resource\<close>, \<open>Payment\<close>,
  \<open>Transaction\<close>, \<open>Subscription\<close>) are declared elsewhere. Their records are
  scoped to an account by a reference to it; a row keeps a key of its own and the
  columns that the merge's \<open>WHERE\<close> clauses read:
  \<open>user\<close> for tokens, verification records, resources, payments, transactions and
  subscriptions, \<open>owner\<close> and \<open>name\<close> for sessions.
\<close>

record UserRow =
  row_key :: string
  row_user :: string

record Session =
  session_owner :: string
  session_name :: string
  session_ids :: "string list"

record db =
  tbl_binding :: "UserIdentityBinding list"
  tbl_user :: "User list"
  tbl_token :: "UserRow list"
  tbl_session :: "Session list"
  tbl_verification_record :: "UserRow list"
  tbl_resource :: "UserRow list"
  tbl_payment :: "UserRow list"
  tbl_transaction :: "UserRow list"
  tbl_subscription :: "UserRow list"

subsection \<open>Errors\<close>

text \<open>
  One constructor for each \<open>fmt.Errorf\<close> of the package, and \<open>StorageError\<close> for an
  error that the storage engine returns. \<open>TokenError\<close> and \<open>PasswordError\<close> are the
  errors of the two collaborators.
\<close>

datatype error =
    StorageError string
  | TokenError string
  | PasswordError string
  | UserNotFound string
  | PrimaryProviderRequired
  | CannotGetValue string
  | InvalidReservedToken error
  | InvalidDeletedToken error
  | ReservedNotExist string error
  | DeletedNotExist string error
  | ReservedIsDeleted string
  | DeletedIsDeleted string
  | CannotMergeSameUser
  | UnsupportedAuthType string
  | AuthenticationFailed
  | InvalidUsernameFormat
  | BoundToOtherUsers string
  | FailedToCreate
  | OnlyLoginMethod
  | BindingNotFound
  | FailedToDelete

subsection \<open>Collaborators\<close>

text \<open>
  Modelled from the spec: the claims type of a verified token is declared elsewhere;
  the record has what is read of it, \<open>claims.User.Name\<close> and
  \<open>claims.UniversalId\<close>.
\<close>

record Claims =
  ClaimsUserName :: string
  ClaimsUniversalId :: string

text \<open>
  What lies outside the package during one call. \<open>dbError env k\<close> is the error, if
  any, with which the storage engine answers the \<open>k\<close>-th statement of the call;
  \<open>GenerateId env k\<close> and \<open>GetCurrentTime env k\<close> are what \<open>util.GenerateId\<close> and
  \<open>util.GetCurrentTime\<close> return when called for statement \<open>k\<close>.
  \<open>ToLower env\<close> is the library function \<open>strings.ToLower\<close>, which maps every
  letter of Unicode and is not among the files at hand.
  \<open>unique_auth\<close> says whether the table carries the unique key on
  \<open>(auth_type, auth_value)\<close> of the feature summary's DDL; the xorm tags of the struct
  declare the primary key only.
\<close>

record env =
  ParseJwtTokenByApplication :: "string \<Rightarrow> error + Claims"
  CheckUserPassword :: "string \<Rightarrow> string \<Rightarrow> string \<Rightarrow> error + User option"
  GenerateId :: "nat \<Rightarrow> string"
  GetCurrentTime :: "nat \<Rightarrow> string"
  ToLower :: "string \<Rightarrow> string"
  dbError :: "nat \<Rightarrow> string option"
  unique_auth :: bool

section \<open>Binding store\<close>

definition same_auth :: "string \<Rightarrow> string \<Rightarrow> UserIdentityBinding \<Rightarrow> bool" where
  "same_auth authType authValue b \<longleftrightarrow> AuthType b = authType \<and> AuthValue b = authValue"

text \<open>
  \<open>Insert(binding)\<close>: the engine's error, a primary key that is taken, or (with the
  unique key) a credential that is taken, reject the row; otherwise it is appended.
\<close>

definition Insert :: "env \<Rightarrow> nat \<Rightarrow> db \<Rightarrow> UserIdentityBinding \<Rightarrow> error + db" where
  "Insert env k d b =
     (case dbError env k of
        Some e \<Rightarrow> Inl (StorageError e)
      | None \<Rightarrow>
          if list_ex (\<lambda>x. Id x = Id b) (tbl_binding d) then
            Inl (StorageError ''duplicate entry for key PRIMARY'')
          else if unique_auth env \<and> list_ex (same_auth (AuthType b) (AuthValue b)) (tbl_binding d) then
            Inl (StorageError ''duplicate entry for key unique_auth'')
          else Inr (d\<lparr>tbl_binding := tbl_binding d @ [b]\<rparr>))"

text \<open>\<open>AddUserIdentityBinding\<close>: one row is affected when the insert succeeds.\<close>

definition AddUserIdentityBinding :: "env \<Rightarrow> nat \<Rightarrow> db \<Rightarrow> UserIdentityBinding \<Rightarrow> (error + bool) \<times> db" where
  "AddUserIdentityBinding env k d binding =
     (case Insert env k d binding of
        Inl e \<Rightarrow> (Inl e, d)
      | Inr d' \<Rightarrow> (Inr ((1::nat) \<noteq> 0), d'))"

definition GetUserIdentityBindingsByUniversalId ::
  "env \<Rightarrow> nat \<Rightarrow> db \<Rightarrow> string \<Rightarrow> error + UserIdentityBinding list" where
  "GetUserIdentityBindingsByUniversalId env k d universalId =
     (case dbError env k of
        Some e \<Rightarrow> Inl (StorageError e)
      | None \<Rightarrow> Inr (filter (\<lambda>b. UniversalId b = universalId) (tbl_binding d)))"

text \<open>\<open>GetUserIdentityBindingByAuth\<close>: the first matching row, or nil.\<close>

definition GetUserIdentityBindingByAuth ::
  "env \<Rightarrow> nat \<Rightarrow> db \<Rightarrow> string \<Rightarrow> string \<Rightarrow> error + UserIdentityBinding option" where
  "GetUserIdentityBindingByAuth env k d authType authValue =
     (case dbError env k of
        Some e \<Rightarrow> Inl (StorageError e)
      | None \<Rightarrow> Inr (find (same_auth authType authValue) (tbl_binding d)))"

definition DeleteUserIdentityBinding :: "env \<Rightarrow> nat \<Rightarrow> db \<Rightarrow> string \<Rightarrow> (error + bool) \<times> db" where
  "DeleteUserIdentityBinding env k d id' =
     (case dbError env k of
        Some e \<Rightarrow> (Inl (StorageError e), d)
      | None \<Rightarrow>
          (Inr (length (filter (\<lambda>b. Id b = id') (tbl_binding d)) \<noteq> 0),
           d\<lparr>tbl_binding := filter (\<lambda>b. Id b \<noteq> id') (tbl_binding d)\<rparr>))"

definition checkAuthMethodExists ::
  "env \<Rightarrow> nat \<Rightarrow> db \<Rightarrow> string \<Rightarrow> string \<Rightarrow> string \<Rightarrow> error + bool" where
  "checkAuthMethodExists env k d universalId authType authValue =
     (case dbError env k of
        Some e \<Rightarrow> Inl (StorageError e)
      | None \<Rightarrow>
          Inr (length (filter (\<lambda>b. UniversalId b = universalId \<and> AuthType b = authType
                 \<and> AuthValue b = authValue) (tbl_binding d)) > 0))"

definition getUserByUniversalId :: "env \<Rightarrow> nat \<Rightarrow> db \<Rightarrow> string \<Rightarrow> error + User" where
  "getUserByUniversalId env k d universalId =
     (case dbError env k of
        Some e \<Rightarrow> Inl (StorageError e)
      | None \<Rightarrow>
          (case find (\<lambda>u. UserUniversalId u = universalId) (tbl_user d) of
             None \<Rightarrow> Inl (UserNotFound universalId)
           | Some u \<Rightarrow> Inr u))"

section \<open>Binding manager\<close>

text \<open>\<open>AddUserIdentityBindingForUser\<close>: the lookup is statement 0, the insert statement 1.\<close>

definition AddUserIdentityBindingForUser ::
  "env \<Rightarrow> db \<Rightarrow> string \<Rightarrow> string \<Rightarrow> string \<Rightarrow> (error + UserIdentityBinding) \<times> db" where
  "AddUserIdentityBindingForUser env d universalId authType authValue =
     (case GetUserIdentityBindingByAuth env 0 d authType authValue of
        Inl e \<Rightarrow> (Inl e, d)
      | Inr (Some existingBinding) \<Rightarrow>
          if UniversalId existingBinding = universalId then (Inr existingBinding, d)
          else (Inl (BoundToOtherUsers authType), d)
      | Inr None \<Rightarrow>
          (let binding = \<lparr>Id = GenerateId env 1, UniversalId = universalId,
                          AuthType = authType, AuthValue = authValue,
                          CreatedTime = GetCurrentTime env 1\<rparr>
           in case AddUserIdentityBinding env 1 d binding of
                (Inl e, d') \<Rightarrow> (Inl e, d')
              | (Inr success, d') \<Rightarrow>
                  if \<not> success then (Inl FailedToCreate, d') else (Inr binding, d')))"

text \<open>
  \<open>RemoveUserIdentityBindingForUser\<close>: the load is statement 0, the delete statement 1.
  The loop with \<open>break\<close> keeps the first binding of the requested type.
\<close>

definition RemoveUserIdentityBindingForUser ::
  "env \<Rightarrow> db \<Rightarrow> string \<Rightarrow> string \<Rightarrow> error option \<times> db" where
  "RemoveUserIdentityBindingForUser env d universalId authType =
     (case GetUserIdentityBindingsByUniversalId env 0 d universalId of
        Inl e \<Rightarrow> (Some e, d)
      | Inr bindings \<Rightarrow>
          if length bindings \<le> 1 then (Some OnlyLoginMethod, d)
          else
            (case find (\<lambda>b. AuthType b = authType) bindings of
               None \<Rightarrow> (Some BindingNotFound, d)
             | Some targetBinding \<Rightarrow>
                 (case DeleteUserIdentityBinding env 1 d (Id targetBinding) of
                    (Inl e, d') \<Rightarrow> (Some e, d')
                  | (Inr success, d') \<Rightarrow>
                      if \<not> success then (Some FailedToDelete, d') else (None, d'))))"

section \<open>Provider resolver\<close>

text \<open>Reading a Go map: the empty string for a key that is absent.\<close>

definition property :: "User \<Rightarrow> string \<Rightarrow> string" where
  "property user key = (case map_of (Properties user) key of None \<Rightarrow> [] | Some v \<Rightarrow> v)"

definition autoDetectProviderType :: "User \<Rightarrow> string \<times> string" where
  "autoDetectProviderType user =
     (if Email user \<noteq> [] then (''email'', Email user)
      else if Phone user \<noteq> [] then (''phone'', Phone user)
      else if Password user \<noteq> [] then (''password'', Owner user @ ''/'' @ Name user)
      else if GitHub user \<noteq> [] then (''github'', GitHub user)
      else if Google user \<noteq> [] then (''google'', Google user)
      else if WeChat user \<noteq> [] then (''wechat'', WeChat user)
      else if QQ user \<noteq> [] then (''qq'', QQ user)
      else if Facebook user \<noteq> [] then (''facebook'', Facebook user)
      else if DingTalk user \<noteq> [] then (''dingtalk'', DingTalk user)
      else if Weibo user \<noteq> [] then (''weibo'', Weibo user)
      else if Ldap user \<noteq> [] then (''ldap'', Ldap user)
      else if Custom user \<noteq> [] then (''custom'', Custom user)
      else ([], []))"

definition getProviderValue :: "env \<Rightarrow> User \<Rightarrow> string \<Rightarrow> string" where
  "getProviderValue env user providerType =
     (let providerTypeLower = ToLower env providerType in
      if providerTypeLower = ''github'' then
        (if GitHub user \<noteq> [] then GitHub user
         else if property user ''oauth_GitHub_id'' \<noteq> [] then property user ''oauth_GitHub_id''
         else if property user ''oauth_GitHub_username'' \<noteq> [] then property user ''oauth_GitHub_username''
         else [])
      else if providerTypeLower = ''google'' then Google user
      else if providerTypeLower = ''wechat'' then WeChat user
      else if providerTypeLower = ''qq'' then QQ user
      else if providerTypeLower = ''facebook'' then Facebook user
      else if providerTypeLower = ''dingtalk'' then DingTalk user
      else if providerTypeLower = ''weibo'' then Weibo user
      else if providerTypeLower = ''email'' then Email user
      else if providerTypeLower = ''phone'' then Phone user
      else if providerTypeLower = ''password'' then
        (if Password user \<noteq> [] then Owner user @ ''/'' @ Name user else [])
      else if providerTypeLower = ''ldap'' then Ldap user
      else if providerTypeLower = ''custom'' then
        (if Custom user \<noteq> [] then Custom user
         else if property user ''oauth_Custom_id'' \<noteq> [] then property user ''oauth_Custom_id''
         else [])
      else
        (if property user (''oauth_'' @ providerType @ ''_id'') \<noteq> []
         then property user (''oauth_'' @ providerType @ ''_id'') else []))"

text \<open>
  \<open>createIdentityBindingsWithValue\<close>, on the caller's session; its insert is
  statement 0. The result is the error, or the session after the insert.
\<close>

definition createIdentityBindingsWithValue ::
  "env \<Rightarrow> db \<Rightarrow> User \<Rightarrow> string \<Rightarrow> string \<Rightarrow> string \<Rightarrow> error + db" where
  "createIdentityBindingsWithValue env session user universalId primaryProvider providerValue =
     (if primaryProvider = [] then Inl PrimaryProviderRequired
      else
        let providerValue1 =
              (if providerValue = [] then getProviderValue env user primaryProvider else providerValue);
            (autoDetectedProvider, autoDetectedValue) = autoDetectProviderType user;
            detected = (providerValue1 = [] \<and> autoDetectedProvider \<noteq> [] \<and> autoDetectedValue \<noteq> []);
            primaryProvider2 = (if detected then autoDetectedProvider else primaryProvider);
            providerValue2 = (if detected then autoDetectedValue else providerValue1)
        in
          if providerValue2 = [] then Inl (CannotGetValue primaryProvider2)
          else
            Insert env 0 session
              \<lparr>Id = GenerateId env 0, UniversalId = universalId,
               AuthType = ToLower env primaryProvider2, AuthValue = providerValue2,
               CreatedTime = GetCurrentTime env 0\<rparr>)"

definition createIdentityBindings :: "env \<Rightarrow> db \<Rightarrow> User \<Rightarrow> string \<Rightarrow> string \<Rightarrow> error + db" where
  "createIdentityBindings env session user universalId primaryProvider =
     createIdentityBindingsWithValue env session user universalId primaryProvider []"

section \<open>Unified login resolver\<close>

text \<open>\<open>strings.Split(s, sep)\<close> for a separator of one byte.\<close>

fun Split :: "char \<Rightarrow> string \<Rightarrow> string list" where
  "Split sep [] = [[]]"
| "Split sep (c # cs) =
     (if c = sep then [] # Split sep cs
      else (case Split sep cs of [] \<Rightarrow> [[c]] | p # ps \<Rightarrow> (c # p) # ps))"

definition validateUsernamePassword :: "env \<Rightarrow> string \<Rightarrow> string \<Rightarrow> error + User option" where
  "validateUsernamePassword env userOwnerName password =
     (case Split (CHR ''/'') userOwnerName of
        [owner, name] \<Rightarrow>
          (case CheckUserPassword env owner name password of
             Inl e \<Rightarrow> Inl e
           | Inr user \<Rightarrow> Inr user)
      | _ \<Rightarrow> Inl InvalidUsernameFormat)"

text \<open>
  The statements after the \<open>switch\<close> of \<open>LoginWithUnifiedIdentity\<close>: \<open>err\<close> and
  \<open>binding\<close> are the function's variables of these names as the \<open>switch\<close> leaves them.
  The load of the user is statement 1.
\<close>

definition loginAfterSwitch ::
  "env \<Rightarrow> db \<Rightarrow> error option \<Rightarrow> UserIdentityBinding option \<Rightarrow> error + User option" where
  "loginAfterSwitch env d err binding =
     (case err of
        Some e \<Rightarrow> Inl e
      | None \<Rightarrow>
          (case binding of
             None \<Rightarrow> Inl AuthenticationFailed
           | Some b \<Rightarrow>
               (case getUserByUniversalId env 1 d (UniversalId b) of
                  Inl e \<Rightarrow> Inl e
                | Inr user \<Rightarrow> Inr (Some user))))"

text \<open>The assignment \<open>binding, err = GetUserIdentityBindingByAuth(...)\<close> to the function's variables.\<close>

definition lookupInto ::
  "env \<Rightarrow> db \<Rightarrow> string \<Rightarrow> string \<Rightarrow> error option \<times> UserIdentityBinding option" where
  "lookupInto env d authType authValue =
     (case GetUserIdentityBindingByAuth env 0 d authType authValue of
        Inl e \<Rightarrow> (Some e, None)
      | Inr b \<Rightarrow> (None, b))"

text \<open>
  \<open>LoginWithUnifiedIdentity\<close>. The result \<open>Inr None\<close> is the return of a nil user
  with a nil error. In the \<open>password\<close> case, \<open>user, err := ...\<close> declares an \<open>err\<close>
  of the case clause, and the lookup assigns its error to that one: the function's
  own \<open>err\<close> stays nil, and \<open>binding\<close> is what the lookup returned.
\<close>

definition LoginWithUnifiedIdentity ::
  "env \<Rightarrow> db \<Rightarrow> string \<Rightarrow> string \<Rightarrow> string \<Rightarrow> error + User option" where
  "LoginWithUnifiedIdentity env d authType authValue password =
     (if authType = ''github'' then
        (case lookupInto env d ''github'' authValue of (err, binding) \<Rightarrow> loginAfterSwitch env d err binding)
      else if authType = ''phone'' then
        (case lookupInto env d ''phone'' authValue of (err, binding) \<Rightarrow> loginAfterSwitch env d err binding)
      else if authType = ''email'' then
        (case lookupInto env d ''email'' authValue of (err, binding) \<Rightarrow> loginAfterSwitch env d err binding)
      else if authType = ''password'' then
        (case validateUsernamePassword env authValue password of
           Inl e \<Rightarrow> Inl e
         | Inr None \<Rightarrow> Inr None
         | Inr (Some user) \<Rightarrow>
             (case lookupInto env d ''password'' (Owner user @ ''/'' @ Name user) of
                (innerErr, binding) \<Rightarrow> loginAfterSwitch env d None binding))
      else Inl (UnsupportedAuthType authType))"

section \<open>Merge orchestrator\<close>

text \<open>
  Step 6 of \<open>MergeUsers\<close>, the loop over \<open>deletedBindings\<close>. \<open>k\<close> is the number of
  the next statement, \<open>session\<close> the tables as the transaction sees them, \<open>merged\<close>
  the slice \<open>mergedAuthMethods\<close>. The check is statement \<open>k\<close>, the insert \<open>k + 1\<close>.
\<close>

fun transferAuthMethods ::
  "env \<Rightarrow> nat \<Rightarrow> string \<Rightarrow> UserIdentityBinding list \<Rightarrow> db \<Rightarrow> AuthMethod list
     \<Rightarrow> error + (db \<times> AuthMethod list \<times> nat)" where
  "transferAuthMethods env k reservedId [] session merged = Inr (session, merged, k)"
| "transferAuthMethods env k reservedId (binding # rest) session merged =
     (case checkAuthMethodExists env k session reservedId (AuthType binding) (AuthValue binding) of
        Inl e \<Rightarrow> Inl e
      | Inr exists' \<Rightarrow>
          if \<not> exists' then
            (case Insert env (k + 1) session
                    \<lparr>Id = GenerateId env (k + 1), UniversalId = reservedId,
                     AuthType = AuthType binding, AuthValue = AuthValue binding,
                     CreatedTime = GetCurrentTime env (k + 1)\<rparr> of
               Inl e \<Rightarrow> Inl e
             | Inr session' \<Rightarrow>
                 transferAuthMethods env (k + 2) reservedId rest session'
                   (merged @ [\<lparr>auth_type = AuthType binding, auth_value = AuthValue binding\<rparr>]))
          else transferAuthMethods env (k + 1) reservedId rest session merged)"

text \<open>
  A \<open>Delete\<close> on the session: the engine's error, or the rows removed. The number of
  rows affected is not read by \<open>MergeUsers\<close>.
\<close>

definition Delete :: "env \<Rightarrow> nat \<Rightarrow> (db \<Rightarrow> db) \<Rightarrow> db \<Rightarrow> error + db" where
  "Delete env k remove session =
     (case dbError env k of Some e \<Rightarrow> Inl (StorageError e) | None \<Rightarrow> Inr (remove session))"

definition where_universal_id :: "string \<Rightarrow> db \<Rightarrow> db" where
  "where_universal_id uid s = s\<lparr>tbl_binding := filter (\<lambda>b. UniversalId b \<noteq> uid) (tbl_binding s)\<rparr>"

definition token_where_user :: "string \<Rightarrow> db \<Rightarrow> db" where
  "token_where_user u s = s\<lparr>tbl_token := filter (\<lambda>r. row_user r \<noteq> u) (tbl_token s)\<rparr>"

definition session_where_owner_name :: "string \<Rightarrow> string \<Rightarrow> db \<Rightarrow> db" where
  "session_where_owner_name ow nm s =
     s\<lparr>tbl_session := filter (\<lambda>r. \<not> (session_owner r = ow \<and> session_name r = nm)) (tbl_session s)\<rparr>"

definition verification_where_user :: "string \<Rightarrow> db \<Rightarrow> db" where
  "verification_where_user u s =
     s\<lparr>tbl_verification_record := filter (\<lambda>r. row_user r \<noteq> u) (tbl_verification_record s)\<rparr>"

definition resource_where_user :: "string \<Rightarrow> db \<Rightarrow> db" where
  "resource_where_user u s = s\<lparr>tbl_resource := filter (\<lambda>r. row_user r \<noteq> u) (tbl_resource s)\<rparr>"

definition payment_where_user :: "string \<Rightarrow> db \<Rightarrow> db" where
  "payment_where_user u s = s\<lparr>tbl_payment := filter (\<lambda>r. row_user r \<noteq> u) (tbl_payment s)\<rparr>"

definition transaction_where_user :: "string \<Rightarrow> db \<Rightarrow> db" where
  "transaction_where_user u s =
     s\<lparr>tbl_transaction := filter (\<lambda>r. row_user r \<noteq> u) (tbl_transaction s)\<rparr>"

definition subscription_where_user :: "string \<Rightarrow> db \<Rightarrow> db" where
  "subscription_where_user u s =
     s\<lparr>tbl_subscription := filter (\<lambda>r. row_user r \<noteq> u) (tbl_subscription s)\<rparr>"

text \<open>
  \<open>session.Delete(deletedUser)\<close>: the condition is built from the columns of the
  record that was loaded, so the row that was loaded meets it; the model removes the
  rows equal to that record.
\<close>

definition user_row :: "User \<Rightarrow> db \<Rightarrow> db" where
  "user_row u s = s\<lparr>tbl_user := filter (\<lambda>x. x \<noteq> u) (tbl_user s)\<rparr>"

text \<open>
  Steps 7 to 9 of \<open>MergeUsers\<close>: the nine deletes, statements \<open>k\<close> to \<open>k + 8\<close>. An
  error ends the sequence (the caller rolls back).
\<close>

definition purgeDeletedUser :: "env \<Rightarrow> nat \<Rightarrow> User \<Rightarrow> db \<Rightarrow> error + db" where
  "purgeDeletedUser env k deletedUser s0 =
     (case Delete env k (where_universal_id (UserUniversalId deletedUser)) s0 of
        Inl e \<Rightarrow> Inl e
      | Inr s1 \<Rightarrow>
     (case Delete env (k + 1) (token_where_user (Name deletedUser)) s1 of
        Inl e \<Rightarrow> Inl e
      | Inr s2 \<Rightarrow>
     (case Delete env (k + 2) (session_where_owner_name (Owner deletedUser) (Name deletedUser)) s2 of
        Inl e \<Rightarrow> Inl e
      | Inr s3 \<Rightarrow>
     (case Delete env (k + 3) (verification_where_user (GetId deletedUser)) s3 of
        Inl e \<Rightarrow> Inl e
      | Inr s4 \<Rightarrow>
     (case Delete env (k + 4) (resource_where_user (Name deletedUser)) s4 of
        Inl e \<Rightarrow> Inl e
      | Inr s5 \<Rightarrow>
     (case Delete env (k + 5) (payment_where_user (Name deletedUser)) s5 of
        Inl e \<Rightarrow> Inl e
      | Inr s6 \<Rightarrow>
     (case Delete env (k + 6) (transaction_where_user (Name deletedUser)) s6 of
        Inl e \<Rightarrow> Inl e
      | Inr s7 \<Rightarrow>
     (case Delete env (k + 7) (subscription_where_user (Name deletedUser)) s7 of
        Inl e \<Rightarrow> Inl e
      | Inr s8 \<Rightarrow> Delete env (k + 8) (user_row deletedUser) s8))))))))"

text \<open>
  Steps 5 to 10 of \<open>MergeUsers\<close>: \<open>Begin\<close> is statement 3, the loop starts at
  statement 4, \<open>Commit\<close> follows the deletes. The result is the error, or the
  committed tables and \<open>mergedAuthMethods\<close>.
\<close>

definition mergeTransaction ::
  "env \<Rightarrow> db \<Rightarrow> User \<Rightarrow> User \<Rightarrow> UserIdentityBinding list \<Rightarrow> error + (db \<times> AuthMethod list)" where
  "mergeTransaction env d reservedUser deletedUser deletedBindings =
     (case dbError env 3 of
        Some e \<Rightarrow> Inl (StorageError e)
      | None \<Rightarrow>
          (case transferAuthMethods env 4 (UserUniversalId reservedUser) deletedBindings d [] of
             Inl e \<Rightarrow> Inl e
           | Inr (session, mergedAuthMethods, k) \<Rightarrow>
               (case purgeDeletedUser env k deletedUser session of
                  Inl e \<Rightarrow> Inl e
                | Inr session' \<Rightarrow>
                    (case dbError env (k + 9) of
                       Some e \<Rightarrow> Inl (StorageError e)
                     | None \<Rightarrow> Inr (session', mergedAuthMethods)))))"

text \<open>
  \<open>MergeUsers\<close>. The two loads of users are statements 0 and 1, the load of the
  bindings statement 2. Every error inside the transaction is followed by
  \<open>session.Rollback()\<close>, and a failed \<open>Commit\<close> by the deferred \<open>session.Close()\<close>: the
  tables are then those of before the call. \<open>getUserByUniversalId\<close> never returns a
  nil user with a nil error, so the two \<open>== nil\<close> branches have no case here.
\<close>

definition MergeUsers :: "env \<Rightarrow> db \<Rightarrow> string \<Rightarrow> string \<Rightarrow> (error + MergeResult) \<times> db" where
  "MergeUsers env d reservedUserToken deletedUserToken =
     (case ParseJwtTokenByApplication env reservedUserToken of
        Inl e \<Rightarrow> (Inl (InvalidReservedToken e), d)
      | Inr reservedClaims \<Rightarrow>
     (case ParseJwtTokenByApplication env deletedUserToken of
        Inl e \<Rightarrow> (Inl (InvalidDeletedToken e), d)
      | Inr deletedClaims \<Rightarrow>
     (case getUserByUniversalId env 0 d (ClaimsUniversalId reservedClaims) of
        Inl e \<Rightarrow> (Inl (ReservedNotExist (ClaimsUniversalId reservedClaims) e), d)
      | Inr reservedUser \<Rightarrow>
     (case getUserByUniversalId env 1 d (ClaimsUniversalId deletedClaims) of
        Inl e \<Rightarrow> (Inl (DeletedNotExist (ClaimsUniversalId deletedClaims) e), d)
      | Inr deletedUser \<Rightarrow>
          if IsDeleted reservedUser then (Inl (ReservedIsDeleted (GetId reservedUser)), d)
          else if IsDeleted deletedUser then (Inl (DeletedIsDeleted (GetId deletedUser)), d)
          else if UserUniversalId reservedUser = UserUniversalId deletedUser then
            (Inl CannotMergeSameUser, d)
          else
            (case GetUserIdentityBindingsByUniversalId env 2 d (UserUniversalId deletedUser) of
               Inl e \<Rightarrow> (Inl e, d)
             | Inr deletedBindings \<Rightarrow>
                 (case mergeTransaction env d reservedUser deletedUser deletedBindings of
                    Inl e \<Rightarrow> (Inl e, d)
                  | Inr (session, mergedAuthMethods) \<Rightarrow>
                      (Inr \<lparr>universal_id = UserUniversalId reservedUser,
                            deleted_user_id = UserUniversalId deletedUser,
                            merged_auth_methods = mergedAuthMethods\<rparr>, session)))))))"

section \<open>The boundary: the controller of \<open>/identity/merge\<close>\<close>

record MergeRequest =
  ReservedUserToken :: string
  DeletedUserToken :: string

datatype response =
    ResponseError string
  | ResponseErrorOf error
  | ResponseOk MergeResult

text \<open>
  \<open>ApiController.MergeUsers\<close>. \<open>authHeader\<close> is the \<open>Authorization\<close> header, \<open>body\<close>
  the request body after \<open>json.Unmarshal\<close> (\<open>None\<close> when it fails).
\<close>

definition ApiController_MergeUsers ::
  "env \<Rightarrow> db \<Rightarrow> string \<Rightarrow> MergeRequest option \<Rightarrow> response \<times> db" where
  "ApiController_MergeUsers env d authHeader body =
     (if authHeader = [] then (ResponseError ''Authorization header required'', d)
      else
        (case Split (CHR '' '') authHeader of
           [bearer, token] \<Rightarrow>
             if bearer \<noteq> ''Bearer'' then
               (ResponseError ''Invalid authorization header format. Expected: Bearer <token>'', d)
             else
               (case ParseJwtTokenByApplication env token of
                  Inl e \<Rightarrow> (ResponseError ''Invalid token'', d)
                | Inr claims \<Rightarrow>
               (case body of
                  None \<Rightarrow> (ResponseError ''Invalid request body'', d)
                | Some request \<Rightarrow>
                    if ReservedUserToken request = [] \<or> DeletedUserToken request = [] then
                      (ResponseError ''Both reserved_user_token and deleted_user_token are required'', d)
                    else
                      (case ParseJwtTokenByApplication env (ReservedUserToken request) of
                         Inl e \<Rightarrow> (ResponseError ''Invalid reserved_user_token'', d)
                       | Inr reservedClaims \<Rightarrow>
                      (case ParseJwtTokenByApplication env (DeletedUserToken request) of
                         Inl e \<Rightarrow> (ResponseError ''Invalid deleted_user_token'', d)
                       | Inr deletedClaims \<Rightarrow>
                           if ClaimsUserName claims \<noteq> ClaimsUserName reservedClaims
                              \<and> ClaimsUserName claims \<noteq> ClaimsUserName deletedClaims then
                             (ResponseError ''Unauthorized: You can only merge accounts you own'', d)
                           else
                             (case MergeUsers env d (ReservedUserToken request) (DeletedUserToken request) of
                                (Inl err, d') \<Rightarrow> (ResponseErrorOf err, d')
                              | (Inr result, d') \<Rightarrow> (ResponseOk result, d'))))))
         | _ \<Rightarrow> (ResponseError ''Invalid authorization header format. Expected: Bearer <token>'', d)))"

section \<open>Notions of the properties\<close>

text \<open>The credential of a binding, and the credentials bound to an identity, in table order.\<close>

definition cred :: "UserIdentityBinding \<Rightarrow> AuthMethod" where
  "cred b = \<lparr>auth_type = AuthType b, auth_value = AuthValue b\<rparr>"

definition creds_of :: "string \<Rightarrow> UserIdentityBinding list \<Rightarrow> AuthMethod list" where
  "creds_of uid tbl = map cred (filter (\<lambda>b. UniversalId b = uid) tbl)"

text \<open>
  The credentials of \<open>cs\<close> that are not bound yet, each once: what a merge has to copy
  when \<open>bound\<close> are the credentials of the reserved identity and \<open>cs\<close> those of the
  deleted one.
\<close>

fun not_yet_bound :: "AuthMethod list \<Rightarrow> AuthMethod list \<Rightarrow> AuthMethod list" where
  "not_yet_bound bound [] = []"
| "not_yet_bound bound (c # cs) =
     (if c \<in> set bound then not_yet_bound bound cs else c # not_yet_bound (bound @ [c]) cs)"

text \<open>
  A row created for identity \<open>rid\<close>: its id is not one of the table \<open>old\<close>, and id and
  timestamp are values of \<open>util.GenerateId\<close> and \<open>util.GetCurrentTime\<close>.
\<close>

definition minted :: "env \<Rightarrow> string \<Rightarrow> UserIdentityBinding list \<Rightarrow> UserIdentityBinding \<Rightarrow> bool" where
  "minted env rid old r \<longleftrightarrow>
     UniversalId r = rid \<and> Id r \<notin> set (map Id old)
     \<and> (\<exists>k. Id r = GenerateId env k \<and> CreatedTime r = GetCurrentTime env k)"

text \<open>Global uniqueness: two bindings of one credential belong to one identity.\<close>

definition unique_credentials :: "UserIdentityBinding list \<Rightarrow> bool" where
  "unique_credentials tbl =
     list_all (\<lambda>b1. list_all (\<lambda>b2.
        if AuthType b1 = AuthType b2 \<and> AuthValue b1 = AuthValue b2
        then UniversalId b1 = UniversalId b2 else True) tbl) tbl"

text \<open>
  The priority order of the resolver as the specification words it: the fields in
  order, the value of \<open>password\<close> being the \<open>owner/name\<close> composite, and the first
  field that is not empty.
\<close>

definition priority_fields :: "User \<Rightarrow> (string \<times> string) list" where
  "priority_fields user =
     [(''email'', Email user), (''phone'', Phone user),
      (''password'', if Password user \<noteq> [] then Owner user @ ''/'' @ Name user else []),
      (''github'', GitHub user), (''google'', Google user), (''wechat'', WeChat user),
      (''qq'', QQ user), (''facebook'', Facebook user), (''dingtalk'', DingTalk user),
      (''weibo'', Weibo user), (''ldap'', Ldap user), (''custom'', Custom user)]"

definition first_non_empty :: "(string \<times> string) list \<Rightarrow> (string \<times> string) option" where
  "first_non_empty fs = find (\<lambda>f. snd f \<noteq> []) fs"

text \<open>The twelve type names of the detection, all in lower case.\<close>

definition provider_types :: "string list" where
  "provider_types =
     [''email'', ''phone'', ''password'', ''github'', ''google'', ''wechat'', ''qq'',
      ''facebook'', ''dingtalk'', ''weibo'', ''ldap'', ''custom'']"

section \<open>A sample installation\<close>

definition mkUser :: "string \<Rightarrow> string \<Rightarrow> string \<Rightarrow> string \<Rightarrow> User" where
  "mkUser nm uid mail ph =
     \<lparr>Owner = ''org'', Name = nm, UserUniversalId = uid, IsDeleted = False, Password = [],
      Email = mail, Phone = ph, GitHub = [], Google = [], WeChat = [], QQ = [], Facebook = [],
      DingTalk = [], Weibo = [], Ldap = [], Custom = [], Properties = []\<rparr>"

definition alice :: User where "alice = mkUser ''alice'' ''UA'' ''a@x.com'' []"

definition bob :: User where "bob = mkUser ''bob'' ''UB'' ''a@x.com'' ''555''"

definition carol :: User where "carol = mkUser ''carol'' ''UC'' [] ''777''"

definition dave :: User where "dave = mkUser ''dave'' ''UD'' ''a@x.com'' []"

definition mkBinding :: "string \<Rightarrow> string \<Rightarrow> string \<Rightarrow> string \<Rightarrow> UserIdentityBinding" where
  "mkBinding i uid t v = \<lparr>Id = i, UniversalId = uid, AuthType = t, AuthValue = v, CreatedTime = ''t0''\<rparr>"

text \<open>
  The store of the specification's merge example: \<open>UA\<close> is bound to
  \<open>email:a@x.com\<close>, \<open>UB\<close> to the same credential and to \<open>phone:555\<close>.
\<close>

definition store_shared :: db where
  "store_shared =
     \<lparr>tbl_binding = [mkBinding ''b1'' ''UA'' ''email'' ''a@x.com'',
                     mkBinding ''b2'' ''UB'' ''email'' ''a@x.com'',
                     mkBinding ''b3'' ''UB'' ''phone'' ''555'',
                     mkBinding ''b4'' ''UC'' ''phone'' ''777''],
      tbl_user = [alice, bob, carol],
      tbl_token = [\<lparr>row_key = ''t1'', row_user = ''alice''\<rparr>, \<lparr>row_key = ''t2'', row_user = ''bob''\<rparr>],
      tbl_session = [\<lparr>session_owner = ''org'', session_name = ''bob'', session_ids = [''s1'']\<rparr>],
      tbl_verification_record = [\<lparr>row_key = ''v1'', row_user = ''org/bob''\<rparr>],
      tbl_resource = [],
      tbl_payment = [\<lparr>row_key = ''p1'', row_user = ''bob''\<rparr>, \<lparr>row_key = ''p2'', row_user = ''carol''\<rparr>],
      tbl_transaction = [],
      tbl_subscription = [\<lparr>row_key = ''u1'', row_user = ''bob''\<rparr>]\<rparr>"

text \<open>A store in which every credential has one owner.\<close>

definition store_unique :: db where
  "store_unique =
     store_shared\<lparr>tbl_binding :=
       [mkBinding ''b1'' ''UA'' ''email'' ''a@x.com'',
        mkBinding ''b3'' ''UB'' ''phone'' ''555'',
        mkBinding ''b5'' ''UB'' ''google'' ''g-bob'',
        mkBinding ''b4'' ''UC'' ''phone'' ''777'']\<rparr>"

definition tokens :: "string \<Rightarrow> error + Claims" where
  "tokens t =
     (if t = ''tokA'' then Inr \<lparr>ClaimsUserName = ''alice'', ClaimsUniversalId = ''UA''\<rparr>
      else if t = ''tokB'' then Inr \<lparr>ClaimsUserName = ''bob'', ClaimsUniversalId = ''UB''\<rparr>
      else if t = ''tokC'' then Inr \<lparr>ClaimsUserName = ''carol'', ClaimsUniversalId = ''UC''\<rparr>
      else Inl (TokenError ''token is malformed''))"

text \<open>
  What \<open>strings.ToLower\<close> returns on a string of ASCII bytes: the letters \<open>A\<close> to
  \<open>Z\<close> in lower case, every other byte as it is. The sample installation applies it
  to such strings only.
\<close>

definition lower_ascii_char :: "char \<Rightarrow> char" where
  "lower_ascii_char c =
     (case map_of (zip ''ABCDEFGHIJKLMNOPQRSTUVWXYZ'' ''abcdefghijklmnopqrstuvwxyz'') c of
        None \<Rightarrow> c
      | Some l \<Rightarrow> l)"

definition lower_ascii :: "string \<Rightarrow> string" where
  "lower_ascii s = map lower_ascii_char s"

text \<open>The collaborators, with the storage errors \<open>f\<close>; \<open>env_ok\<close> has none.\<close>

definition env_fault :: "(nat \<Rightarrow> string option) \<Rightarrow> env" where
  "env_fault f =
     \<lparr>ParseJwtTokenByApplication = tokens,
      CheckUserPassword = (\<lambda>ow nm pw. if ow = ''org'' \<and> nm = ''alice'' \<and> pw = ''secret''
                             then Inr (Some alice) else Inl (PasswordError ''password incorrect'')),
      GenerateId = (\<lambda>k. ''new'' @ replicate k (CHR ''+'')),
      GetCurrentTime = (\<lambda>k. ''t1''),
      ToLower = lower_ascii,
      dbError = f,
      unique_auth = False\<rparr>"

definition env_ok :: env where
  "env_ok = env_fault (\<lambda>k. None)"

section \<open>Auxiliary facts\<close>

lemmas sample_defs = mkUser_def alice_def bob_def carol_def dave_def mkBinding_def
  store_shared_def store_unique_def tokens_def env_fault_def env_ok_def
  lower_ascii_def lower_ascii_char_def

lemma find_in_set: "find P xs = Some x \<Longrightarrow> x \<in> set xs \<and> P x"
  by (induction xs) (auto split: if_splits)

lemma filter_Id_remove1:
  "distinct (map Id xs) \<Longrightarrow> b \<in> set xs \<Longrightarrow> filter (\<lambda>x. Id x \<noteq> Id b) xs = remove1 b xs"
proof (induction xs)
  case Nil
  then show ?case by simp
next
  case (Cons a xs)
  show ?case
  proof (cases "a = b")
    case True
    with Cons.prems have "Id b \<notin> Id ` set xs" by simp
    then have "\<forall>x\<in>set xs. Id x \<noteq> Id b" by (metis imageI)
    then have "filter (\<lambda>x. Id x \<noteq> Id b) xs = xs" by (simp add: filter_id_conv)
    with True show ?thesis by simp
  next
    case False
    with Cons.prems have "b \<in> set xs" "Id a \<noteq> Id b" "distinct (map Id xs)" by auto
    with Cons.IH False show ?thesis by simp
  qed
qed

lemma filter_Id_none:
  "filter (\<lambda>b. Id b = i) xs = [] \<Longrightarrow> filter (\<lambda>b. Id b \<noteq> i) xs = xs"
  by (induction xs) (auto split: if_splits)

section \<open>Bind and unbind\<close>

text \<open>
  Claim C5. Let the lookup of \<open>bind(universalId, authType, authValue)\<close> be answered by
  the store. If the binding it finds for the credential is owned by \<open>universalId\<close>,
  the call returns that row and the store is unchanged; if it is owned by another
  identity, the call fails with "has been bound to other users" and the store is
  unchanged; if there is none, and the store accepts the insert (no storage error, the
  generated id is not taken), the call appends exactly one row with the generated id
  and the current time and returns it. Whenever the call fails, the store is unchanged.
\<close>

theorem bind_cases:
  "dbError env 0 = None \<longrightarrow>
     (let r = AddUserIdentityBindingForUser env d universalId authType authValue;
          new = \<lparr>Id = GenerateId env 1, UniversalId = universalId, AuthType = authType,
                 AuthValue = authValue, CreatedTime = GetCurrentTime env 1\<rparr>
      in (\<forall>b. find (same_auth authType authValue) (tbl_binding d) = Some b \<and> UniversalId b = universalId
                \<longrightarrow> r = (Inr b, d))
       \<and> (\<forall>b. find (same_auth authType authValue) (tbl_binding d) = Some b \<and> UniversalId b \<noteq> universalId
                \<longrightarrow> r = (Inl (BoundToOtherUsers authType), d))
       \<and> (find (same_auth authType authValue) (tbl_binding d) = None \<and> dbError env 1 = None
            \<and> \<not> list_ex (\<lambda>x. Id x = Id new) (tbl_binding d)
                \<longrightarrow> r = (Inr new, d\<lparr>tbl_binding := tbl_binding d @ [new]\<rparr>))
       \<and> (isl (fst r) \<longrightarrow> snd r = d))"
proof (intro impI)
  assume ok: "dbError env 0 = None"
  let ?r = "AddUserIdentityBindingForUser env d universalId authType authValue"
  let ?new = "\<lparr>Id = GenerateId env 1, UniversalId = universalId, AuthType = authType,
                 AuthValue = authValue, CreatedTime = GetCurrentTime env 1\<rparr>"
  let ?f = "find (same_auth authType authValue) (tbl_binding d)"
  have a: "?r = (Inr b, d)" if "?f = Some b" "UniversalId b = universalId" for b
    using ok that by (simp add: AddUserIdentityBindingForUser_def GetUserIdentityBindingByAuth_def)
  have b: "?r = (Inl (BoundToOtherUsers authType), d)" if "?f = Some b" "UniversalId b \<noteq> universalId" for b
    using ok that by (simp add: AddUserIdentityBindingForUser_def GetUserIdentityBindingByAuth_def)
  have c: "?r = (Inr ?new, d\<lparr>tbl_binding := tbl_binding d @ [?new]\<rparr>)"
    if h: "?f = None" "dbError env 1 = None" "\<not> list_ex (\<lambda>x. Id x = Id ?new) (tbl_binding d)"
  proof -
    from h(1) have "\<not> list_ex (same_auth authType authValue) (tbl_binding d)"
      by (simp add: find_None_iff list_ex_iff)
    with ok h show ?thesis
      by (simp add: AddUserIdentityBindingForUser_def GetUserIdentityBindingByAuth_def
            AddUserIdentityBinding_def Insert_def Let_def)
  qed
  have e: "isl (fst ?r) \<longrightarrow> snd ?r = d"
    by (simp add: AddUserIdentityBindingForUser_def GetUserIdentityBindingByAuth_def
          AddUserIdentityBinding_def Let_def split: sum.splits option.splits)
  show "let r = ?r; new = ?new in
        (\<forall>b. find (same_auth authType authValue) (tbl_binding d) = Some b \<and> UniversalId b = universalId
                \<longrightarrow> r = (Inr b, d))
       \<and> (\<forall>b. find (same_auth authType authValue) (tbl_binding d) = Some b \<and> UniversalId b \<noteq> universalId
                \<longrightarrow> r = (Inl (BoundToOtherUsers authType), d))
       \<and> (find (same_auth authType authValue) (tbl_binding d) = None \<and> dbError env 1 = None
            \<and> \<not> list_ex (\<lambda>x. Id x = Id new) (tbl_binding d)
                \<longrightarrow> r = (Inr new, d\<lparr>tbl_binding := tbl_binding d @ [new]\<rparr>))
       \<and> (isl (fst r) \<longrightarrow> snd r = d)"
    unfolding Let_def using a b c e by blast
qed

text \<open>
  On the sample store: \<open>UA\<close> binds its own e-mail address again, \<open>UB\<close> tries to bind
  the address of \<open>UA\<close>, and \<open>UA\<close> binds a new phone number.
\<close>

theorem bind_cases_witness:
  "dbError env_ok 0 = None
   \<and> AddUserIdentityBindingForUser env_ok store_unique ''UA'' ''email'' ''a@x.com''
       = (Inr (mkBinding ''b1'' ''UA'' ''email'' ''a@x.com''), store_unique)
   \<and> AddUserIdentityBindingForUser env_ok store_unique ''UB'' ''email'' ''a@x.com''
       = (Inl (BoundToOtherUsers ''email''), store_unique)
   \<and> AddUserIdentityBindingForUser env_ok store_unique ''UA'' ''phone'' ''999''
       = (Inr \<lparr>Id = ''new+'', UniversalId = ''UA'', AuthType = ''phone'', AuthValue = ''999'',
               CreatedTime = ''t1''\<rparr>,
          store_unique\<lparr>tbl_binding := tbl_binding store_unique
            @ [\<lparr>Id = ''new+'', UniversalId = ''UA'', AuthType = ''phone'', AuthValue = ''999'',
                CreatedTime = ''t1''\<rparr>]\<rparr>)"
  using bind_cases [of env_ok store_unique "''UA''" "''email''" "''a@x.com''"]
    bind_cases [of env_ok store_unique "''UB''" "''email''" "''a@x.com''"]
    bind_cases [of env_ok store_unique "''UA''" "''phone''" "''999''"]
  by (simp add: sample_defs same_auth_def Let_def)

text \<open>
  Claim C6. Let the load of \<open>unbind(universalId, authType)\<close> be answered by the store,
  and \<open>mine\<close> be the bindings of \<open>universalId\<close>. With at most one of them the call
  fails with "cannot delete the only login method" and the store is unchanged; with
  more than one and none of type \<open>authType\<close> it fails with "not found" and the store
  is unchanged; otherwise, when the store accepts the delete and the primary keys are
  distinct, the call removes the first binding of that type and no other row, and the
  identity keeps at least one binding. Whenever the call fails, the store is unchanged.
\<close>

theorem unbind_cases:
  "dbError env 0 = None \<longrightarrow>
     (let r = RemoveUserIdentityBindingForUser env d universalId authType;
          mine = filter (\<lambda>b. UniversalId b = universalId) (tbl_binding d)
      in (length mine \<le> 1 \<longrightarrow> r = (Some OnlyLoginMethod, d))
       \<and> (1 < length mine \<and> find (\<lambda>b. AuthType b = authType) mine = None
            \<longrightarrow> r = (Some BindingNotFound, d))
       \<and> (\<forall>target. 1 < length mine \<and> find (\<lambda>b. AuthType b = authType) mine = Some target
              \<and> dbError env 1 = None \<and> distinct (map Id (tbl_binding d))
            \<longrightarrow> r = (None, d\<lparr>tbl_binding := remove1 target (tbl_binding d)\<rparr>)
              \<and> length (filter (\<lambda>b. UniversalId b = universalId) (remove1 target (tbl_binding d)))
                  = length mine - 1
              \<and> 1 \<le> length (filter (\<lambda>b. UniversalId b = universalId) (remove1 target (tbl_binding d))))
       \<and> (fst r \<noteq> None \<longrightarrow> snd r = d))"
proof (intro impI)
  assume ok: "dbError env 0 = None"
  let ?mine = "filter (\<lambda>b. UniversalId b = universalId) (tbl_binding d)"
  let ?r = "RemoveUserIdentityBindingForUser env d universalId authType"
  have a: "length ?mine \<le> 1 \<longrightarrow> ?r = (Some OnlyLoginMethod, d)"
    using ok by (simp add: RemoveUserIdentityBindingForUser_def GetUserIdentityBindingsByUniversalId_def)
  have b: "1 < length ?mine \<and> find (\<lambda>b. AuthType b = authType) ?mine = None
            \<longrightarrow> ?r = (Some BindingNotFound, d)"
    using ok by (simp add: RemoveUserIdentityBindingForUser_def GetUserIdentityBindingsByUniversalId_def)
  have c: "?r = (None, d\<lparr>tbl_binding := remove1 target (tbl_binding d)\<rparr>)
              \<and> length (filter (\<lambda>b. UniversalId b = universalId) (remove1 target (tbl_binding d)))
                  = length ?mine - 1
              \<and> 1 \<le> length (filter (\<lambda>b. UniversalId b = universalId) (remove1 target (tbl_binding d)))"
    if h: "1 < length ?mine" "find (\<lambda>b. AuthType b = authType) ?mine = Some target"
      "dbError env 1 = None" "distinct (map Id (tbl_binding d))" for target
  proof -
    have t: "target \<in> set ?mine" using find_in_set [OF h(2)] by blast
    then have tin: "target \<in> set (tbl_binding d)" and tu: "UniversalId target = universalId" by auto
    have f: "filter (\<lambda>b. Id b \<noteq> Id target) (tbl_binding d) = remove1 target (tbl_binding d)"
      using h(4) tin by (rule filter_Id_remove1)
    have ex: "filter (\<lambda>b. Id b = Id target) (tbl_binding d) \<noteq> []"
      using tin by (auto simp: filter_empty_conv)
    have r: "?r = (None, d\<lparr>tbl_binding := remove1 target (tbl_binding d)\<rparr>)"
      using ok h(1,2,3) f ex
      by (simp add: RemoveUserIdentityBindingForUser_def GetUserIdentityBindingsByUniversalId_def
            DeleteUserIdentityBinding_def)
    from h(4) have dist: "distinct (tbl_binding d)" by (simp add: distinct_map)
    have "filter (\<lambda>b. UniversalId b = universalId) (remove1 target (tbl_binding d)) = remove1 target ?mine"
      using dist tu by (induction "tbl_binding d") (auto simp: filter_remove1)
    then have l: "length (filter (\<lambda>b. UniversalId b = universalId) (remove1 target (tbl_binding d)))
        = length ?mine - 1"
      using t by (simp add: length_remove1)
    with r h(1) show ?thesis by simp
  qed
  have e: "fst ?r \<noteq> None \<longrightarrow> snd ?r = d"
    by (auto simp: RemoveUserIdentityBindingForUser_def GetUserIdentityBindingsByUniversalId_def
          DeleteUserIdentityBinding_def filter_Id_none split: sum.splits option.splits if_splits)
  show "let r = ?r; mine = ?mine in
      (length mine \<le> 1 \<longrightarrow> r = (Some OnlyLoginMethod, d))
       \<and> (1 < length mine \<and> find (\<lambda>b. AuthType b = authType) mine = None
            \<longrightarrow> r = (Some BindingNotFound, d))
       \<and> (\<forall>target. 1 < length mine \<and> find (\<lambda>b. AuthType b = authType) mine = Some target
              \<and> dbError env 1 = None \<and> distinct (map Id (tbl_binding d))
            \<longrightarrow> r = (None, d\<lparr>tbl_binding := remove1 target (tbl_binding d)\<rparr>)
              \<and> length (filter (\<lambda>b. UniversalId b = universalId) (remove1 target (tbl_binding d)))
                  = length mine - 1
              \<and> 1 \<le> length (filter (\<lambda>b. UniversalId b = universalId) (remove1 target (tbl_binding d))))
       \<and> (fst r \<noteq> None \<longrightarrow> snd r = d)"
    unfolding Let_def using a b c e by blast
qed

text \<open>
  On the sample store: \<open>UA\<close> has one binding, \<open>UB\<close> has two (phone and google) and
  none of type \<open>email\<close>; unbinding \<open>phone\<close> from \<open>UB\<close> removes the row \<open>b3\<close> only.
\<close>

theorem unbind_cases_witness:
  "dbError env_ok 0 = None
   \<and> RemoveUserIdentityBindingForUser env_ok store_unique ''UA'' ''email''
       = (Some OnlyLoginMethod, store_unique)
   \<and> RemoveUserIdentityBindingForUser env_ok store_unique ''UB'' ''email''
       = (Some BindingNotFound, store_unique)
   \<and> RemoveUserIdentityBindingForUser env_ok store_unique ''UB'' ''phone''
       = (None, store_unique\<lparr>tbl_binding :=
            [mkBinding ''b1'' ''UA'' ''email'' ''a@x.com'',
             mkBinding ''b5'' ''UB'' ''google'' ''g-bob'',
             mkBinding ''b4'' ''UC'' ''phone'' ''777'']\<rparr>)"
  using unbind_cases [of env_ok store_unique "''UA''" "''email''"]
    unbind_cases [of env_ok store_unique "''UB''" "''email''"]
    unbind_cases [of env_ok store_unique "''UB''" "''phone''"]
  by (simp add: sample_defs Let_def)

section \<open>Unified login resolver\<close>

text \<open>
  Claim C9, as the code has it. For the types \<open>github\<close>, \<open>phone\<close> and \<open>email\<close> the
  resolver looks the binding up by \<open>(authType, authValue)\<close> and loads the user by the
  binding's universal identity; without a binding it fails with "authentication
  failed". For \<open>password\<close> it first validates the secret against the account named by
  the \<open>owner/name\<close> composite (a value that is not of this form is rejected); when the
  validation fails, its error is returned as it is; on success the binding
  \<open>(password, owner/name)\<close> of the validated user is looked up in the same way. Every
  other type is rejected as unsupported.
\<close>

theorem login_resolver:
  "(authType \<in> {''github'', ''phone'', ''email''} \<and> dbError env 0 = None \<longrightarrow>
      LoginWithUnifiedIdentity env d authType authValue password =
        (case find (same_auth authType authValue) (tbl_binding d) of
           None \<Rightarrow> Inl AuthenticationFailed
         | Some b \<Rightarrow> map_sum id Some (getUserByUniversalId env 1 d (UniversalId b))))
   \<and> (\<forall>owner name. Split (CHR ''/'') authValue = [owner, name] \<longrightarrow>
        validateUsernamePassword env authValue password = CheckUserPassword env owner name password)
   \<and> (length (Split (CHR ''/'') authValue) \<noteq> 2 \<longrightarrow>
        validateUsernamePassword env authValue password = Inl InvalidUsernameFormat)
   \<and> (\<forall>e. validateUsernamePassword env authValue password = Inl e \<longrightarrow>
        LoginWithUnifiedIdentity env d ''password'' authValue password = Inl e)
   \<and> (\<forall>user. validateUsernamePassword env authValue password = Inr (Some user) \<and> dbError env 0 = None \<longrightarrow>
        LoginWithUnifiedIdentity env d ''password'' authValue password =
          (case find (same_auth ''password'' (Owner user @ ''/'' @ Name user)) (tbl_binding d) of
             None \<Rightarrow> Inl AuthenticationFailed
           | Some b \<Rightarrow> map_sum id Some (getUserByUniversalId env 1 d (UniversalId b))))
   \<and> (authType \<notin> {''github'', ''phone'', ''email'', ''password''} \<longrightarrow>
        LoginWithUnifiedIdentity env d authType authValue password = Inl (UnsupportedAuthType authType))"
proof (intro conjI allI impI)
  assume h: "authType \<in> {''github'', ''phone'', ''email''} \<and> dbError env 0 = None"
  then consider "authType = ''github''" | "authType = ''phone''" | "authType = ''email''"
    by blast
  then show "LoginWithUnifiedIdentity env d authType authValue password =
        (case find (same_auth authType authValue) (tbl_binding d) of
           None \<Rightarrow> Inl AuthenticationFailed
         | Some b \<Rightarrow> map_sum id Some (getUserByUniversalId env 1 d (UniversalId b)))"
  proof cases
    case 1
    with h show ?thesis
      by (simp add: LoginWithUnifiedIdentity_def lookupInto_def loginAfterSwitch_def
            GetUserIdentityBindingByAuth_def split: option.splits sum.splits)
  next
    case 2
    with h show ?thesis
      by (simp add: LoginWithUnifiedIdentity_def lookupInto_def loginAfterSwitch_def
            GetUserIdentityBindingByAuth_def split: option.splits sum.splits)
  next
    case 3
    with h show ?thesis
      by (simp add: LoginWithUnifiedIdentity_def lookupInto_def loginAfterSwitch_def
            GetUserIdentityBindingByAuth_def split: option.splits sum.splits)
  qed
next
  fix owner name
  assume "Split (CHR ''/'') authValue = [owner, name]"
  then show "validateUsernamePassword env authValue password = CheckUserPassword env owner name password"
    by (simp add: validateUsernamePassword_def split: sum.splits)
next
  assume "length (Split (CHR ''/'') authValue) \<noteq> 2"
  then show "validateUsernamePassword env authValue password = Inl InvalidUsernameFormat"
    by (auto simp: validateUsernamePassword_def split: list.splits)
next
  fix e
  assume "validateUsernamePassword env authValue password = Inl e"
  then show "LoginWithUnifiedIdentity env d ''password'' authValue password = Inl e"
    by (simp add: LoginWithUnifiedIdentity_def)
next
  fix user
  assume "validateUsernamePassword env authValue password = Inr (Some user) \<and> dbError env 0 = None"
  then show "LoginWithUnifiedIdentity env d ''password'' authValue password =
          (case find (same_auth ''password'' (Owner user @ ''/'' @ Name user)) (tbl_binding d) of
             None \<Rightarrow> Inl AuthenticationFailed
           | Some b \<Rightarrow> map_sum id Some (getUserByUniversalId env 1 d (UniversalId b)))"
    by (simp add: LoginWithUnifiedIdentity_def lookupInto_def loginAfterSwitch_def
          GetUserIdentityBindingByAuth_def split: option.splits sum.splits)
next
  assume "authType \<notin> {''github'', ''phone'', ''email'', ''password''}"
  then show "LoginWithUnifiedIdentity env d authType authValue password = Inl (UnsupportedAuthType authType)"
    by (simp add: LoginWithUnifiedIdentity_def)
qed

text \<open>
  On the sample store: \<open>email:a@x.com\<close> leads to alice; alice's password is accepted
  but no password binding exists; a wrong password returns the checker's error.
\<close>

theorem login_resolver_witness:
  "LoginWithUnifiedIdentity env_ok store_unique ''email'' ''a@x.com'' [] = Inr (Some alice)
   \<and> LoginWithUnifiedIdentity env_ok store_unique ''phone'' ''000'' [] = Inl AuthenticationFailed
   \<and> validateUsernamePassword env_ok ''org/alice'' ''secret'' = Inr (Some alice)
   \<and> LoginWithUnifiedIdentity env_ok store_unique ''password'' ''org/alice'' ''secret''
       = Inl AuthenticationFailed
   \<and> LoginWithUnifiedIdentity env_ok store_unique ''password'' ''org/alice'' ''guess''
       = Inl (PasswordError ''password incorrect'')
   \<and> LoginWithUnifiedIdentity env_ok store_unique ''password'' ''alice'' ''secret''
       = Inl InvalidUsernameFormat
   \<and> LoginWithUnifiedIdentity env_ok store_unique ''ldap'' ''cn=alice'' []
       = Inl (UnsupportedAuthType ''ldap'')"
  using login_resolver [of "''email''" env_ok store_unique "''a@x.com''" "[]"]
    login_resolver [of "''phone''" env_ok store_unique "''000''" "[]"]
    login_resolver [of "''password''" env_ok store_unique "''org/alice''" "''secret''"]
    login_resolver [of "''password''" env_ok store_unique "''org/alice''" "''guess''"]
    login_resolver [of "''password''" env_ok store_unique "''alice''" "''secret''"]
    login_resolver [of "''ldap''" env_ok store_unique "''cn=alice''" "[]"]
  by (simp add: sample_defs same_auth_def getUserByUniversalId_def)

text \<open>
  The claim as it is written fails for a type other than the four: the binding
  \<open>google:g-bob\<close> exists and its user can be loaded, yet the resolver does not look
  it up. It fails as well for a wrong password, where the error is the checker's.
\<close>

theorem login_resolver_counterexample:
  "find (same_auth ''google'' ''g-bob'') (tbl_binding store_unique)
     = Some (mkBinding ''b5'' ''UB'' ''google'' ''g-bob'')
   \<and> getUserByUniversalId env_ok 1 store_unique ''UB'' = Inr bob
   \<and> LoginWithUnifiedIdentity env_ok store_unique ''google'' ''g-bob'' []
       = Inl (UnsupportedAuthType ''google'')
   \<and> LoginWithUnifiedIdentity env_ok store_unique ''password'' ''org/alice'' ''guess''
       = Inl (PasswordError ''password incorrect'')
   \<and> PasswordError ''password incorrect'' \<noteq> AuthenticationFailed"
  by (simp add: sample_defs same_auth_def getUserByUniversalId_def LoginWithUnifiedIdentity_def
        validateUsernamePassword_def)

text \<open>
  Claim C10. In the \<open>password\<close> case, when the secret is accepted and the lookup of
  the binding is answered with a storage error, that error is dropped and the call
  fails with "authentication failed".
\<close>

theorem password_lookup_error_discarded:
  "validateUsernamePassword env authValue password = Inr (Some user) \<and> dbError env 0 = Some e \<longrightarrow>
     GetUserIdentityBindingByAuth env 0 d ''password'' (Owner user @ ''/'' @ Name user)
       = Inl (StorageError e)
     \<and> LoginWithUnifiedIdentity env d ''password'' authValue password = Inl AuthenticationFailed"
  by (simp add: LoginWithUnifiedIdentity_def lookupInto_def loginAfterSwitch_def
        GetUserIdentityBindingByAuth_def)

text \<open>
  On the sample store with a storage layer that rejects the first statement: the
  password login loses the error, the e-mail login returns it.
\<close>

theorem password_lookup_error_discarded_witness:
  "validateUsernamePassword (env_fault (\<lambda>k. if k = 0 then Some ''connection lost'' else None))
       ''org/alice'' ''secret'' = Inr (Some alice)
   \<and> LoginWithUnifiedIdentity (env_fault (\<lambda>k. if k = 0 then Some ''connection lost'' else None))
       store_unique ''password'' ''org/alice'' ''secret'' = Inl AuthenticationFailed
   \<and> LoginWithUnifiedIdentity (env_fault (\<lambda>k. if k = 0 then Some ''connection lost'' else None))
       store_unique ''email'' ''a@x.com'' [] = Inl (StorageError ''connection lost'')"
proof -
  let ?env = "env_fault (\<lambda>k. if k = 0 then Some ''connection lost'' else None)"
  have v: "validateUsernamePassword ?env ''org/alice'' ''secret'' = Inr (Some alice)"
    by (simp add: validateUsernamePassword_def env_fault_def)
  have f: "dbError ?env 0 = Some ''connection lost''"
    by (simp add: env_fault_def)
  have e: "LoginWithUnifiedIdentity ?env store_unique ''email'' ''a@x.com'' []
      = Inl (StorageError ''connection lost'')"
    by (simp add: LoginWithUnifiedIdentity_def lookupInto_def loginAfterSwitch_def
          GetUserIdentityBindingByAuth_def env_fault_def)
  from password_lookup_error_discarded [of ?env "''org/alice''" "''secret''" alice "''connection lost''" store_unique]
    v f e show ?thesis by simp
qed

section \<open>Provider resolver\<close>

lemma autoDetect_priority:
  "autoDetectProviderType user =
     (case first_non_empty (priority_fields user) of None \<Rightarrow> ([], []) | Some f \<Rightarrow> f)"
  by (simp add: autoDetectProviderType_def first_non_empty_def priority_fields_def)

lemma autoDetect_type:
  "fst (autoDetectProviderType user) = [] \<or> fst (autoDetectProviderType user) \<in> set provider_types"
  by (simp add: autoDetectProviderType_def provider_types_def)

lemma autoDetect_both_or_none:
  "(fst (autoDetectProviderType user) = []) = (snd (autoDetectProviderType user) = [])"
  by (simp add: autoDetectProviderType_def)

text \<open>
  Claim C4, as the code has it. The automatic detection returns the first field that
  is not empty in the order email, phone, password (with the \<open>owner/name\<close>
  composite), github, google, wechat, qq, facebook, dingtalk, weibo, ldap, custom, and
  the empty pair exactly when all twelve fields are empty. The creation of a binding
  uses it when a hint is given and no value is available for the hint: it registers
  the detected credential (\<open>strings.ToLower\<close> leaving the twelve type names, which
  are in lower case, as they are), or fails with "cannot get value" when the
  detection is empty. Without a hint the creation is refused ("primaryProvider is
  required"), whatever the fields hold.
\<close>

theorem provider_resolver:
  "autoDetectProviderType user =
     (case first_non_empty (priority_fields user) of None \<Rightarrow> ([], []) | Some f \<Rightarrow> f)
   \<and> (autoDetectProviderType user = ([], []) \<longleftrightarrow>
        Email user = [] \<and> Phone user = [] \<and> Password user = [] \<and> GitHub user = []
        \<and> Google user = [] \<and> WeChat user = [] \<and> QQ user = [] \<and> Facebook user = []
        \<and> DingTalk user = [] \<and> Weibo user = [] \<and> Ldap user = [] \<and> Custom user = [])
   \<and> (primaryProvider \<noteq> [] \<and> getProviderValue env user primaryProvider = []
        \<and> list_all (\<lambda>t. ToLower env t = t) provider_types \<longrightarrow>
        createIdentityBindingsWithValue env session user universalId primaryProvider [] =
          (case first_non_empty (priority_fields user) of
             None \<Rightarrow> Inl (CannotGetValue primaryProvider)
           | Some f \<Rightarrow>
               Insert env 0 session
                 \<lparr>Id = GenerateId env 0, UniversalId = universalId, AuthType = fst f,
                  AuthValue = snd f, CreatedTime = GetCurrentTime env 0\<rparr>))
   \<and> createIdentityBindingsWithValue env session user universalId [] providerValue
        = Inl PrimaryProviderRequired"
proof (intro conjI impI)
  show "autoDetectProviderType user =
     (case first_non_empty (priority_fields user) of None \<Rightarrow> ([], []) | Some f \<Rightarrow> f)"
    by (rule autoDetect_priority)
next
  show "autoDetectProviderType user = ([], []) \<longleftrightarrow>
        Email user = [] \<and> Phone user = [] \<and> Password user = [] \<and> GitHub user = []
        \<and> Google user = [] \<and> WeChat user = [] \<and> QQ user = [] \<and> Facebook user = []
        \<and> DingTalk user = [] \<and> Weibo user = [] \<and> Ldap user = [] \<and> Custom user = []"
    by (simp add: autoDetectProviderType_def)
next
  assume h: "primaryProvider \<noteq> [] \<and> getProviderValue env user primaryProvider = []
        \<and> list_all (\<lambda>t. ToLower env t = t) provider_types"
  obtain t v where tv: "autoDetectProviderType user = (t, v)"
    by (cases "autoDetectProviderType user")
  from autoDetect_type [of user] tv have "t = [] \<or> t \<in> set provider_types" by simp
  with h have low: "t \<noteq> [] \<longrightarrow> ToLower env t = t"
    by (auto simp: list_all_iff)
  from autoDetect_both_or_none [of user] tv have tv0: "(t = []) = (v = [])" by simp
  show "createIdentityBindingsWithValue env session user universalId primaryProvider [] =
          (case first_non_empty (priority_fields user) of
             None \<Rightarrow> Inl (CannotGetValue primaryProvider)
           | Some f \<Rightarrow>
               Insert env 0 session
                 \<lparr>Id = GenerateId env 0, UniversalId = universalId, AuthType = fst f,
                  AuthValue = snd f, CreatedTime = GetCurrentTime env 0\<rparr>)"
  proof (cases "first_non_empty (priority_fields user)")
    case None
    with tv autoDetect_priority [of user] have "t = []" "v = []" by simp_all
    with h tv None show ?thesis
      by (simp add: createIdentityBindingsWithValue_def)
  next
    case (Some f)
    with tv autoDetect_priority [of user] have f: "f = (t, v)" by simp
    from Some have "snd f \<noteq> []"
      unfolding first_non_empty_def using find_in_set by fastforce
    with f tv0 have ne: "t \<noteq> []" "v \<noteq> []" by simp_all
    with low have "ToLower env t = t" by simp
    with h tv Some f ne show ?thesis
      by (simp add: createIdentityBindingsWithValue_def)
  qed
next
  show "createIdentityBindingsWithValue env session user universalId [] providerValue
        = Inl PrimaryProviderRequired"
    by (simp add: createIdentityBindingsWithValue_def)
qed

text \<open>
  carol has a phone number only; created with the hint \<open>GitHub\<close>, she is registered
  as \<open>phone:777\<close>.
\<close>

theorem provider_resolver_witness:
  "''GitHub'' \<noteq> [] \<and> getProviderValue env_ok carol ''GitHub'' = []
   \<and> list_all (\<lambda>t. ToLower env_ok t = t) provider_types
   \<and> first_non_empty (priority_fields carol) = Some (''phone'', ''777'')
   \<and> createIdentityBindingsWithValue env_ok (store_unique\<lparr>tbl_binding := []\<rparr>) carol ''UC'' ''GitHub'' []
       = Inr (store_unique\<lparr>tbl_binding :=
           [\<lparr>Id = ''new'', UniversalId = ''UC'', AuthType = ''phone'', AuthValue = ''777'',
             CreatedTime = ''t1''\<rparr>]\<rparr>)"
proof -
  have g: "getProviderValue env_ok carol ''GitHub'' = []"
    by (simp add: getProviderValue_def property_def sample_defs)
  have l: "list_all (\<lambda>t. ToLower env_ok t = t) provider_types"
    by (simp add: provider_types_def sample_defs)
  have f: "first_non_empty (priority_fields carol) = Some (''phone'', ''777'')"
    by (simp add: first_non_empty_def priority_fields_def sample_defs)
  from provider_resolver [of carol "''GitHub''" env_ok "store_unique\<lparr>tbl_binding := []\<rparr>" "''UC''" "[]"]
    g l f show ?thesis
    by (simp add: Insert_def sample_defs)
qed

text \<open>
  The claim as it is written fails when no hint is given: alice has an e-mail
  address, which the detection returns, and her creation without a hint is an error.
\<close>

theorem provider_resolver_counterexample:
  "autoDetectProviderType alice = (''email'', ''a@x.com'')
   \<and> createIdentityBindingsWithValue env_ok store_unique alice ''UA'' [] []
       = Inl PrimaryProviderRequired"
  by (simp add: autoDetectProviderType_def createIdentityBindingsWithValue_def sample_defs)

section \<open>Merge\<close>

lemmas merge_defs = MergeUsers_def mergeTransaction_def purgeDeletedUser_def Delete_def
  where_universal_id_def token_where_user_def session_where_owner_name_def
  verification_where_user_def resource_where_user_def payment_where_user_def
  transaction_where_user_def subscription_where_user_def user_row_def
  getUserByUniversalId_def GetUserIdentityBindingsByUniversalId_def
  checkAuthMethodExists_def Insert_def GetId_def

text \<open>
  Claim C3, as the code has it. The check that the caller takes part in the merge is
  made by the controller, before it calls \<open>MergeUsers\<close>, which receives the two
  tokens only. With a well-formed header and request and three tokens that verify: a
  caller who is neither of the two accounts (neither its universal identity nor its
  user name is that of the reserved or of the deleted token) is answered
  "Unauthorized" and the store is left alone; for a caller who is the holder of the
  reserved or of the deleted token the two tokens are handed to \<open>MergeUsers\<close>, and
  its result is the answer.
\<close>

theorem controller_checks_participation:
  "authHeader \<noteq> [] \<and> Split (CHR '' '') authHeader = [''Bearer'', token]
   \<and> ParseJwtTokenByApplication env token = Inr claims
   \<and> ReservedUserToken request \<noteq> [] \<and> DeletedUserToken request \<noteq> []
   \<and> ParseJwtTokenByApplication env (ReservedUserToken request) = Inr reservedClaims
   \<and> ParseJwtTokenByApplication env (DeletedUserToken request) = Inr deletedClaims
   \<longrightarrow>
     (ClaimsUniversalId claims \<noteq> ClaimsUniversalId reservedClaims
        \<and> ClaimsUniversalId claims \<noteq> ClaimsUniversalId deletedClaims
        \<and> ClaimsUserName claims \<noteq> ClaimsUserName reservedClaims
        \<and> ClaimsUserName claims \<noteq> ClaimsUserName deletedClaims \<longrightarrow>
        ApiController_MergeUsers env d authHeader (Some request) =
          (ResponseError ''Unauthorized: You can only merge accounts you own'', d))
     \<and> (claims = reservedClaims \<or> claims = deletedClaims \<longrightarrow>
        ApiController_MergeUsers env d authHeader (Some request) =
          (case MergeUsers env d (ReservedUserToken request) (DeletedUserToken request) of
             (Inl err, d') \<Rightarrow> (ResponseErrorOf err, d')
           | (Inr result, d') \<Rightarrow> (ResponseOk result, d')))"
proof (intro impI conjI)
  assume h: "authHeader \<noteq> [] \<and> Split (CHR '' '') authHeader = [''Bearer'', token]
   \<and> ParseJwtTokenByApplication env token = Inr claims
   \<and> ReservedUserToken request \<noteq> [] \<and> DeletedUserToken request \<noteq> []
   \<and> ParseJwtTokenByApplication env (ReservedUserToken request) = Inr reservedClaims
   \<and> ParseJwtTokenByApplication env (DeletedUserToken request) = Inr deletedClaims"
  {
    assume "ClaimsUniversalId claims \<noteq> ClaimsUniversalId reservedClaims
        \<and> ClaimsUniversalId claims \<noteq> ClaimsUniversalId deletedClaims
        \<and> ClaimsUserName claims \<noteq> ClaimsUserName reservedClaims
        \<and> ClaimsUserName claims \<noteq> ClaimsUserName deletedClaims"
    with h show "ApiController_MergeUsers env d authHeader (Some request) =
          (ResponseError ''Unauthorized: You can only merge accounts you own'', d)"
      by (simp add: ApiController_MergeUsers_def)
  }
  {
    assume "claims = reservedClaims \<or> claims = deletedClaims"
    then have "ClaimsUserName claims = ClaimsUserName reservedClaims
        \<or> ClaimsUserName claims = ClaimsUserName deletedClaims"
      by auto
    with h show "ApiController_MergeUsers env d authHeader (Some request) =
          (case MergeUsers env d (ReservedUserToken request) (DeletedUserToken request) of
             (Inl err, d') \<Rightarrow> (ResponseErrorOf err, d')
           | (Inr result, d') \<Rightarrow> (ResponseOk result, d'))"
      by (auto simp: ApiController_MergeUsers_def)
  }
qed

text \<open>
  carol (\<open>UC\<close>) asks for the merge of alice and bob and is turned away by the
  controller; alice (\<open>UA\<close>), the holder of the reserved token, is served.
\<close>

theorem controller_checks_participation_witness:
  "Split (CHR '' '') ''Bearer tokC'' = [''Bearer'', ''tokC'']
   \<and> ParseJwtTokenByApplication env_ok ''tokC''
        = Inr \<lparr>ClaimsUserName = ''carol'', ClaimsUniversalId = ''UC''\<rparr>
   \<and> ApiController_MergeUsers env_ok store_shared ''Bearer tokC''
        (Some \<lparr>ReservedUserToken = ''tokA'', DeletedUserToken = ''tokB''\<rparr>)
       = (ResponseError ''Unauthorized: You can only merge accounts you own'', store_shared)
   \<and> ParseJwtTokenByApplication env_ok ''tokA''
        = Inr \<lparr>ClaimsUserName = ''alice'', ClaimsUniversalId = ''UA''\<rparr>
   \<and> fst (ApiController_MergeUsers env_ok store_shared ''Bearer tokA''
        (Some \<lparr>ReservedUserToken = ''tokA'', DeletedUserToken = ''tokB''\<rparr>))
       = ResponseOk \<lparr>universal_id = ''UA'', deleted_user_id = ''UB'',
           merged_auth_methods = [\<lparr>auth_type = ''phone'', auth_value = ''555''\<rparr>]\<rparr>"
proof -
  let ?req = "\<lparr>ReservedUserToken = ''tokA'', DeletedUserToken = ''tokB''\<rparr>"
  let ?a = "\<lparr>ClaimsUserName = ''alice'', ClaimsUniversalId = ''UA''\<rparr>"
  let ?b = "\<lparr>ClaimsUserName = ''bob'', ClaimsUniversalId = ''UB''\<rparr>"
  let ?c = "\<lparr>ClaimsUserName = ''carol'', ClaimsUniversalId = ''UC''\<rparr>"
  have carol: "ApiController_MergeUsers env_ok store_shared ''Bearer tokC'' (Some ?req)
       = (ResponseError ''Unauthorized: You can only merge accounts you own'', store_shared)"
    using controller_checks_participation [of "''Bearer tokC''" "''tokC''" env_ok ?c ?req ?a ?b store_shared]
    by (simp add: tokens_def env_fault_def env_ok_def)
  have "fst (MergeUsers env_ok store_shared ''tokA'' ''tokB'')
       = Inr \<lparr>universal_id = ''UA'', deleted_user_id = ''UB'',
              merged_auth_methods = [\<lparr>auth_type = ''phone'', auth_value = ''555''\<rparr>]\<rparr>"
    by (simp add: sample_defs merge_defs)
  then obtain d' where run: "MergeUsers env_ok store_shared ''tokA'' ''tokB''
       = (Inr \<lparr>universal_id = ''UA'', deleted_user_id = ''UB'',
              merged_auth_methods = [\<lparr>auth_type = ''phone'', auth_value = ''555''\<rparr>]\<rparr>, d')"
    by (cases "MergeUsers env_ok store_shared ''tokA'' ''tokB''") simp
  have alice: "fst (ApiController_MergeUsers env_ok store_shared ''Bearer tokA'' (Some ?req))
       = ResponseOk \<lparr>universal_id = ''UA'', deleted_user_id = ''UB'',
           merged_auth_methods = [\<lparr>auth_type = ''phone'', auth_value = ''555''\<rparr>]\<rparr>"
    using controller_checks_participation [of "''Bearer tokA''" "''tokA''" env_ok ?a ?req ?a ?b store_shared]
      run
    by (simp add: tokens_def env_fault_def env_ok_def)
  from carol alice show ?thesis
    by (simp add: tokens_def env_fault_def env_ok_def)
qed

text \<open>
  The claim as it is written fails: for the request that the controller refuses to
  carol (identity \<open>UC\<close>, neither \<open>UA\<close> nor \<open>UB\<close>), \<open>MergeUsers\<close> itself succeeds.
\<close>

theorem orchestrator_revalidation_counterexample:
  "ParseJwtTokenByApplication env_ok ''tokC''
     = Inr \<lparr>ClaimsUserName = ''carol'', ClaimsUniversalId = ''UC''\<rparr>
   \<and> fst (ApiController_MergeUsers env_ok store_shared ''Bearer tokC''
        (Some \<lparr>ReservedUserToken = ''tokA'', DeletedUserToken = ''tokB''\<rparr>))
       = ResponseError ''Unauthorized: You can only merge accounts you own''
   \<and> fst (MergeUsers env_ok store_shared ''tokA'' ''tokB'')
       = Inr \<lparr>universal_id = ''UA'', deleted_user_id = ''UB'',
              merged_auth_methods = [\<lparr>auth_type = ''phone'', auth_value = ''555''\<rparr>]\<rparr>"
proof -
  have c: "fst (ApiController_MergeUsers env_ok store_shared ''Bearer tokC''
        (Some \<lparr>ReservedUserToken = ''tokA'', DeletedUserToken = ''tokB''\<rparr>))
       = ResponseError ''Unauthorized: You can only merge accounts you own''"
    by (simp add: ApiController_MergeUsers_def tokens_def env_fault_def env_ok_def)
  have m: "fst (MergeUsers env_ok store_shared ''tokA'' ''tokB'')
       = Inr \<lparr>universal_id = ''UA'', deleted_user_id = ''UB'',
              merged_auth_methods = [\<lparr>auth_type = ''phone'', auth_value = ''555''\<rparr>]\<rparr>"
    by (simp add: sample_defs merge_defs)
  from c m show ?thesis by (simp add: tokens_def env_fault_def env_ok_def)
qed

subsection \<open>The transfer loop, the purge and the transaction\<close>

lemma set_not_yet_bound: "set (not_yet_bound bound cs) = set cs - set bound"
  by (induction cs arbitrary: bound) auto

lemma distinct_not_yet_bound: "distinct (not_yet_bound bound cs)"
  by (induction cs arbitrary: bound) (auto simp: set_not_yet_bound)

lemma exists_iff_cred:
  "(filter (\<lambda>b. UniversalId b = uid \<and> AuthType b = t \<and> AuthValue b = v) tbl = [])
     = (\<lparr>auth_type = t, auth_value = v\<rparr> \<notin> set (creds_of uid tbl))"
  by (induction tbl) (auto simp: creds_of_def cred_def)

lemma check_exists:
  "dbError env k = None \<Longrightarrow>
     checkAuthMethodExists env k s uid t v
       = Inr (\<lparr>auth_type = t, auth_value = v\<rparr> \<in> set (creds_of uid (tbl_binding s)))"
  by (simp add: checkAuthMethodExists_def exists_iff_cred)

lemma transfer_result:
  "transferAuthMethods env k rid bs s merged = Inr (s', merged', k') \<Longrightarrow>
     \<exists>new. s' = s\<lparr>tbl_binding := tbl_binding s @ new\<rparr>
        \<and> merged' = merged @ map cred new
        \<and> map cred new = not_yet_bound (creds_of rid (tbl_binding s)) (map cred bs)
        \<and> list_all (minted env rid (tbl_binding s)) new"
proof (induction bs arbitrary: k s merged)
  case Nil
  then show ?case by simp
next
  case (Cons b bs)
  let ?c = "\<lparr>auth_type = AuthType b, auth_value = AuthValue b\<rparr>"
  from Cons.prems have ok: "dbError env k = None"
    by (auto simp: checkAuthMethodExists_def split: option.splits)
  show ?case
  proof (cases "?c \<in> set (creds_of rid (tbl_binding s))")
    case True
    with Cons.prems ok have "transferAuthMethods env (k + 1) rid bs s merged = Inr (s', merged', k')"
      by (simp add: check_exists)
    from Cons.IH [OF this] True show ?thesis by (simp add: cred_def)
  next
    case False
    let ?r = "\<lparr>Id = GenerateId env (k + 1), UniversalId = rid, AuthType = AuthType b,
               AuthValue = AuthValue b, CreatedTime = GetCurrentTime env (k + 1)\<rparr>"
    from Cons.prems ok False obtain s1 where
      ins: "Insert env (k + 1) s ?r = Inr s1" and
      rest: "transferAuthMethods env (k + 2) rid bs s1 (merged @ [?c]) = Inr (s', merged', k')"
      by (auto simp: check_exists split: sum.splits)
    from ins have s1: "s1 = s\<lparr>tbl_binding := tbl_binding s @ [?r]\<rparr>"
      and fresh: "Id ?r \<notin> set (map Id (tbl_binding s))"
      by (auto simp: Insert_def list_ex_iff split: option.splits if_splits)
    from Cons.IH [OF rest] obtain new where
      n1: "s' = s1\<lparr>tbl_binding := tbl_binding s1 @ new\<rparr>" and
      n2: "merged' = (merged @ [?c]) @ map cred new" and
      n3: "map cred new = not_yet_bound (creds_of rid (tbl_binding s1)) (map cred bs)" and
      n4: "list_all (minted env rid (tbl_binding s1)) new"
      by blast
    have c1: "creds_of rid (tbl_binding s1) = creds_of rid (tbl_binding s) @ [?c]"
      by (simp add: s1 creds_of_def cred_def)
    have m: "minted env rid (tbl_binding s) ?r"
      using fresh by (auto simp: minted_def)
    have m': "list_all (minted env rid (tbl_binding s)) new"
      using n4 by (auto simp: list_all_iff minted_def s1)
    have "s' = s\<lparr>tbl_binding := tbl_binding s @ (?r # new)\<rparr>"
      using n1 by (simp add: s1)
    moreover have "merged' = merged @ map cred (?r # new)"
      using n2 by (simp add: cred_def)
    moreover have "map cred (?r # new) = not_yet_bound (creds_of rid (tbl_binding s)) (map cred (b # bs))"
      using False n3 c1 by (simp add: cred_def)
    moreover have "list_all (minted env rid (tbl_binding s)) (?r # new)"
      using m m' by simp
    ultimately show ?thesis by blast
  qed
qed

text \<open>The loop reads and writes the binding table only.\<close>

lemma transfer_frame:
  "tbl_binding s2 = tbl_binding s \<Longrightarrow>
   transferAuthMethods env k rid bs s merged = Inr (s', merged', k') \<Longrightarrow>
   transferAuthMethods env k rid bs s2 merged = Inr (s2\<lparr>tbl_binding := tbl_binding s'\<rparr>, merged', k')"
proof (induction bs arbitrary: k s s2 merged)
  case Nil
  then show ?case by simp
next
  case (Cons b bs)
  let ?c = "\<lparr>auth_type = AuthType b, auth_value = AuthValue b\<rparr>"
  from Cons.prems(2) have ok: "dbError env k = None"
    by (auto simp: checkAuthMethodExists_def split: option.splits)
  show ?case
  proof (cases "?c \<in> set (creds_of rid (tbl_binding s))")
    case True
    with Cons.prems ok have "transferAuthMethods env (k + 1) rid bs s merged = Inr (s', merged', k')"
      by (simp add: check_exists)
    from Cons.IH [OF Cons.prems(1) this] True ok Cons.prems(1) show ?thesis
      by (simp add: check_exists)
  next
    case False
    let ?r = "\<lparr>Id = GenerateId env (k + 1), UniversalId = rid, AuthType = AuthType b,
               AuthValue = AuthValue b, CreatedTime = GetCurrentTime env (k + 1)\<rparr>"
    from Cons.prems(2) ok False obtain s1 where
      ins: "Insert env (k + 1) s ?r = Inr s1" and
      rest: "transferAuthMethods env (k + 2) rid bs s1 (merged @ [?c]) = Inr (s', merged', k')"
      by (auto simp: check_exists split: sum.splits)
    from ins Cons.prems(1) have ins2: "Insert env (k + 1) s2 ?r = Inr (s2\<lparr>tbl_binding := tbl_binding s1\<rparr>)"
      by (auto simp: Insert_def split: option.splits if_splits)
    have "tbl_binding (s2\<lparr>tbl_binding := tbl_binding s1\<rparr>) = tbl_binding s1" by simp
    from Cons.IH [OF this rest]
    have "transferAuthMethods env (k + 2) rid bs (s2\<lparr>tbl_binding := tbl_binding s1\<rparr>) (merged @ [?c])
        = Inr (s2\<lparr>tbl_binding := tbl_binding s'\<rparr>, merged', k')"
      by simp
    with False ok Cons.prems(1) ins2 show ?thesis
      by (simp add: check_exists)
  qed
qed

lemma purge_result:
  "purgeDeletedUser env k u s = Inr s' \<Longrightarrow>
     s' = \<lparr>tbl_binding = filter (\<lambda>b. UniversalId b \<noteq> UserUniversalId u) (tbl_binding s),
           tbl_user = filter (\<lambda>x. x \<noteq> u) (tbl_user s),
           tbl_token = filter (\<lambda>r. row_user r \<noteq> Name u) (tbl_token s),
           tbl_session = filter (\<lambda>r. \<not> (session_owner r = Owner u \<and> session_name r = Name u)) (tbl_session s),
           tbl_verification_record = filter (\<lambda>r. row_user r \<noteq> GetId u) (tbl_verification_record s),
           tbl_resource = filter (\<lambda>r. row_user r \<noteq> Name u) (tbl_resource s),
           tbl_payment = filter (\<lambda>r. row_user r \<noteq> Name u) (tbl_payment s),
           tbl_transaction = filter (\<lambda>r. row_user r \<noteq> Name u) (tbl_transaction s),
           tbl_subscription = filter (\<lambda>r. row_user r \<noteq> Name u) (tbl_subscription s)\<rparr>"
  by (auto simp: purgeDeletedUser_def Delete_def where_universal_id_def token_where_user_def
        session_where_owner_name_def verification_where_user_def resource_where_user_def
        payment_where_user_def transaction_where_user_def subscription_where_user_def user_row_def
        split: sum.splits option.splits)

text \<open>Whether the purge succeeds depends on the storage errors only, not on the rows.\<close>

lemma purge_frame:
  "purgeDeletedUser env k u s = Inr s' \<Longrightarrow> \<exists>s2'. purgeDeletedUser env k u s2 = Inr s2'"
  by (auto simp: purgeDeletedUser_def Delete_def split: sum.splits option.splits)

lemma mergeTransaction_success:
  assumes "mergeTransaction env d ru du bs = Inr (d', m)"
  obtains s k where
    "dbError env 3 = None"
    "transferAuthMethods env 4 (UserUniversalId ru) bs d [] = Inr (s, m, k)"
    "purgeDeletedUser env k du s = Inr d'"
    "dbError env (k + 9) = None"
  using assms
  by (auto simp: mergeTransaction_def split: sum.splits option.splits prod.splits)

lemma mergeTransaction_frame:
  assumes "tbl_binding d2 = tbl_binding d" "mergeTransaction env d ru du bs = Inr (d', m)"
  shows "\<exists>d2'. mergeTransaction env d2 ru du bs = Inr (d2', m)"
proof -
  from assms(2) obtain s k where
    b: "dbError env 3 = None" and
    t: "transferAuthMethods env 4 (UserUniversalId ru) bs d [] = Inr (s, m, k)" and
    p: "purgeDeletedUser env k du s = Inr d'" and
    c: "dbError env (k + 9) = None"
    by (rule mergeTransaction_success)
  from transfer_frame [OF assms(1) t]
  have t2: "transferAuthMethods env 4 (UserUniversalId ru) bs d2 []
      = Inr (d2\<lparr>tbl_binding := tbl_binding s\<rparr>, m, k)" .
  from purge_frame [OF p] obtain s2' where
    p2: "purgeDeletedUser env k du (d2\<lparr>tbl_binding := tbl_binding s\<rparr>) = Inr s2'" by blast
  from b t2 p2 c have "mergeTransaction env d2 ru du bs = Inr (s2', m)"
    by (simp add: mergeTransaction_def)
  then show ?thesis by blast
qed

lemma MergeUsers_success:
  assumes "MergeUsers env d rt dt = (Inr res, d')"
  obtains rc dc ru du where
    "ParseJwtTokenByApplication env rt = Inr rc"
    "ParseJwtTokenByApplication env dt = Inr dc"
    "getUserByUniversalId env 0 d (ClaimsUniversalId rc) = Inr ru"
    "getUserByUniversalId env 1 d (ClaimsUniversalId dc) = Inr du"
    "\<not> IsDeleted ru" "\<not> IsDeleted du" "UserUniversalId ru \<noteq> UserUniversalId du"
    "dbError env 2 = None"
    "mergeTransaction env d ru du (filter (\<lambda>b. UniversalId b = UserUniversalId du) (tbl_binding d))
       = Inr (d', merged_auth_methods res)"
    "universal_id res = UserUniversalId ru" "deleted_user_id res = UserUniversalId du"
  using assms
  by (auto simp: MergeUsers_def GetUserIdentityBindingsByUniversalId_def
        split: sum.splits option.splits if_splits prod.splits)

lemma getUser_found:
  "getUserByUniversalId env k d uid = Inr u \<Longrightarrow>
     find (\<lambda>x. UserUniversalId x = uid) (tbl_user d) = Some u \<and> UserUniversalId u = uid"
  by (auto simp: getUserByUniversalId_def split: option.splits dest: find_in_set)

text \<open>
  Claim C1. After a successful merge of the reserved identity \<open>rid\<close> and the deleted
  identity \<open>did\<close>, which differ: \<open>mergedAuthMethods\<close> is the list of the credentials
  of \<open>did\<close> that were not bound to \<open>rid\<close>, each once (a credential that \<open>rid\<close> holds
  already is skipped); the binding table is the old one without the rows of \<open>did\<close>,
  followed by one new row for each merged credential, owned by \<open>rid\<close>, with an id
  that was not in the table and a generated id and timestamp; so the credentials of
  \<open>rid\<close> are the old ones followed by the merged ones, as a set the union of both
  sets, and no credential is duplicated by the merge.
\<close>

theorem merge_transfers_credentials:
  assumes "MergeUsers env d reservedUserToken deletedUserToken = (Inr res, d')"
  shows "universal_id res \<noteq> deleted_user_id res
    \<and> merged_auth_methods res =
        not_yet_bound (creds_of (universal_id res) (tbl_binding d))
          (creds_of (deleted_user_id res) (tbl_binding d))
    \<and> (\<exists>new. tbl_binding d' =
          filter (\<lambda>b. UniversalId b \<noteq> deleted_user_id res) (tbl_binding d) @ new
          \<and> map cred new = merged_auth_methods res
          \<and> list_all (minted env (universal_id res) (tbl_binding d)) new)
    \<and> creds_of (universal_id res) (tbl_binding d') =
        creds_of (universal_id res) (tbl_binding d) @ merged_auth_methods res
    \<and> set (creds_of (universal_id res) (tbl_binding d')) =
        set (creds_of (universal_id res) (tbl_binding d))
          \<union> set (creds_of (deleted_user_id res) (tbl_binding d))
    \<and> distinct (merged_auth_methods res)
    \<and> set (merged_auth_methods res) \<inter> set (creds_of (universal_id res) (tbl_binding d)) = {}
    \<and> (distinct (creds_of (universal_id res) (tbl_binding d))
         \<longrightarrow> distinct (creds_of (universal_id res) (tbl_binding d')))"
proof -
  from assms obtain ru du where
    ne: "UserUniversalId ru \<noteq> UserUniversalId du" and
    tx: "mergeTransaction env d ru du (filter (\<lambda>b. UniversalId b = UserUniversalId du) (tbl_binding d))
       = Inr (d', merged_auth_methods res)" and
    rid: "universal_id res = UserUniversalId ru" and did: "deleted_user_id res = UserUniversalId du"
    by (rule MergeUsers_success)
  let ?rid = "universal_id res" and ?did = "deleted_user_id res"
  let ?m = "merged_auth_methods res"
  from tx obtain s k where
    t: "transferAuthMethods env 4 (UserUniversalId ru)
          (filter (\<lambda>b. UniversalId b = UserUniversalId du) (tbl_binding d)) d [] = Inr (s, ?m, k)" and
    p: "purgeDeletedUser env k du s = Inr d'"
    by (rule mergeTransaction_success)
  from transfer_result [OF t] obtain new where
    s: "s = d\<lparr>tbl_binding := tbl_binding d @ new\<rparr>" and
    m: "?m = map cred new" and
    nyb: "map cred new = not_yet_bound (creds_of ?rid (tbl_binding d)) (creds_of ?did (tbl_binding d))" and
    mint: "list_all (minted env ?rid (tbl_binding d)) new"
    unfolding rid did creds_of_def by auto
  from mint have owner: "\<forall>r\<in>set new. UniversalId r = ?rid"
    by (simp add: list_all_iff minted_def)
  from ne rid did have ne': "?rid \<noteq> ?did" by simp
  from owner ne' have keep: "filter (\<lambda>b. UniversalId b \<noteq> ?did) new = new"
    by (simp add: filter_id_conv)
  from owner have mine: "filter (\<lambda>b. UniversalId b = ?rid) new = new"
    by (simp add: filter_id_conv)
  from purge_result [OF p] have "tbl_binding d' = filter (\<lambda>b. UniversalId b \<noteq> ?did) (tbl_binding s)"
    by (simp add: did)
  with s keep have tbl: "tbl_binding d' = filter (\<lambda>b. UniversalId b \<noteq> ?did) (tbl_binding d) @ new"
    by simp
  have old: "filter (\<lambda>b. UniversalId b = ?rid) (filter (\<lambda>b. UniversalId b \<noteq> ?did) (tbl_binding d))
      = filter (\<lambda>b. UniversalId b = ?rid) (tbl_binding d)"
    using ne' by (auto intro: filter_cong)
  have creds: "creds_of ?rid (tbl_binding d') = creds_of ?rid (tbl_binding d) @ ?m"
    by (simp only: creds_of_def tbl filter_append old mine m map_append)
  have sm: "set ?m = set (creds_of ?did (tbl_binding d)) - set (creds_of ?rid (tbl_binding d))"
    using m nyb by (simp add: set_not_yet_bound)
  have dm: "distinct ?m"
    using m nyb by (simp add: distinct_not_yet_bound)
  have u: "set (creds_of ?rid (tbl_binding d')) =
        set (creds_of ?rid (tbl_binding d)) \<union> set (creds_of ?did (tbl_binding d))"
    using creds sm by auto
  have dis: "set ?m \<inter> set (creds_of ?rid (tbl_binding d)) = {}"
    using sm by auto
  have dd: "distinct (creds_of ?rid (tbl_binding d)) \<longrightarrow> distinct (creds_of ?rid (tbl_binding d'))"
    using creds dm dis by auto
  have ex: "\<exists>new. tbl_binding d' = filter (\<lambda>b. UniversalId b \<noteq> ?did) (tbl_binding d) @ new
          \<and> map cred new = ?m \<and> list_all (minted env ?rid (tbl_binding d)) new"
  proof (intro exI conjI)
    show "tbl_binding d' = filter (\<lambda>b. UniversalId b \<noteq> ?did) (tbl_binding d) @ new" by (rule tbl)
    show "map cred new = ?m" by (rule m [symmetric])
    show "list_all (minted env ?rid (tbl_binding d)) new" by (rule mint)
  qed
  from ne' m nyb ex creds u dm dis dd show ?thesis by simp
qed

text \<open>
  The example of the specification: alice (\<open>UA\<close>, \<open>email:a@x.com\<close>) absorbs bob
  (\<open>UB\<close>, \<open>email:a@x.com\<close> and \<open>phone:555\<close>).
\<close>

theorem merge_transfers_credentials_witness:
  "MergeUsers env_ok store_shared ''tokA'' ''tokB'' =
     (Inr \<lparr>universal_id = ''UA'', deleted_user_id = ''UB'',
           merged_auth_methods = [\<lparr>auth_type = ''phone'', auth_value = ''555''\<rparr>]\<rparr>,
      store_shared\<lparr>tbl_binding :=
           [mkBinding ''b1'' ''UA'' ''email'' ''a@x.com'',
            mkBinding ''b4'' ''UC'' ''phone'' ''777'',
            \<lparr>Id = ''new++++++'', UniversalId = ''UA'', AuthType = ''phone'', AuthValue = ''555'',
              CreatedTime = ''t1''\<rparr>],
         tbl_user := [alice, carol],
         tbl_token := [\<lparr>row_key = ''t1'', row_user = ''alice''\<rparr>],
         tbl_session := [],
         tbl_verification_record := [],
         tbl_payment := [\<lparr>row_key = ''p2'', row_user = ''carol''\<rparr>],
         tbl_subscription := []\<rparr>)
   \<and> creds_of ''UA'' (tbl_binding (snd (MergeUsers env_ok store_shared ''tokA'' ''tokB''))) =
       [\<lparr>auth_type = ''email'', auth_value = ''a@x.com''\<rparr>,
        \<lparr>auth_type = ''phone'', auth_value = ''555''\<rparr>]
   \<and> distinct (creds_of ''UA'' (tbl_binding (snd (MergeUsers env_ok store_shared ''tokA'' ''tokB''))))"
proof -
  have run: "MergeUsers env_ok store_shared ''tokA'' ''tokB'' =
     (Inr \<lparr>universal_id = ''UA'', deleted_user_id = ''UB'',
           merged_auth_methods = [\<lparr>auth_type = ''phone'', auth_value = ''555''\<rparr>]\<rparr>,
      store_shared\<lparr>tbl_binding :=
           [mkBinding ''b1'' ''UA'' ''email'' ''a@x.com'',
            mkBinding ''b4'' ''UC'' ''phone'' ''777'',
            \<lparr>Id = ''new++++++'', UniversalId = ''UA'', AuthType = ''phone'', AuthValue = ''555'',
              CreatedTime = ''t1''\<rparr>],
         tbl_user := [alice, carol],
         tbl_token := [\<lparr>row_key = ''t1'', row_user = ''alice''\<rparr>],
         tbl_session := [],
         tbl_verification_record := [],
         tbl_payment := [\<lparr>row_key = ''p2'', row_user = ''carol''\<rparr>],
         tbl_subscription := []\<rparr>)"
    by (simp add: sample_defs merge_defs eval_nat_numeral)
  have old: "creds_of ''UA'' (tbl_binding store_shared) = [\<lparr>auth_type = ''email'', auth_value = ''a@x.com''\<rparr>]"
    by (simp add: creds_of_def cred_def sample_defs)
  note t = merge_transfers_credentials [OF run]
  from t have c: "creds_of ''UA'' (tbl_binding (snd (MergeUsers env_ok store_shared ''tokA'' ''tokB'')))
      = creds_of ''UA'' (tbl_binding store_shared) @ [\<lparr>auth_type = ''phone'', auth_value = ''555''\<rparr>]"
    unfolding run by simp
  from c old have c': "creds_of ''UA'' (tbl_binding (snd (MergeUsers env_ok store_shared ''tokA'' ''tokB'')))
      = [\<lparr>auth_type = ''email'', auth_value = ''a@x.com''\<rparr>,
         \<lparr>auth_type = ''phone'', auth_value = ''555''\<rparr>]"
    by simp
  from run c' show ?thesis by simp
qed

text \<open>
  Claim C8. After a successful merge the deleted identity owns no binding; the rows
  of the deleted user are gone from every dependent table (tokens, sessions,
  verification records, resources, payments, transactions, subscriptions) and from
  the user table, and the other rows of these tables are kept. Rows to delete need
  not exist: on the same store with all dependent tables empty the merge succeeds
  with the same result.
\<close>

theorem merge_purges_deleted_user:
  assumes "MergeUsers env d reservedUserToken deletedUserToken = (Inr res, d')"
  shows "filter (\<lambda>b. UniversalId b = deleted_user_id res) (tbl_binding d') = []
    \<and> (\<exists>deletedUser.
          find (\<lambda>u. UserUniversalId u = deleted_user_id res) (tbl_user d) = Some deletedUser
        \<and> tbl_user d' = filter (\<lambda>u. u \<noteq> deletedUser) (tbl_user d)
        \<and> tbl_token d' = filter (\<lambda>r. row_user r \<noteq> Name deletedUser) (tbl_token d)
        \<and> tbl_session d' =
            filter (\<lambda>r. \<not> (session_owner r = Owner deletedUser \<and> session_name r = Name deletedUser))
              (tbl_session d)
        \<and> tbl_verification_record d' =
            filter (\<lambda>r. row_user r \<noteq> GetId deletedUser) (tbl_verification_record d)
        \<and> tbl_resource d' = filter (\<lambda>r. row_user r \<noteq> Name deletedUser) (tbl_resource d)
        \<and> tbl_payment d' = filter (\<lambda>r. row_user r \<noteq> Name deletedUser) (tbl_payment d)
        \<and> tbl_transaction d' = filter (\<lambda>r. row_user r \<noteq> Name deletedUser) (tbl_transaction d)
        \<and> tbl_subscription d' = filter (\<lambda>r. row_user r \<noteq> Name deletedUser) (tbl_subscription d))
    \<and> fst (MergeUsers env
          (d\<lparr>tbl_token := [], tbl_session := [], tbl_verification_record := [], tbl_resource := [],
             tbl_payment := [], tbl_transaction := [], tbl_subscription := []\<rparr>)
          reservedUserToken deletedUserToken) = Inr res"
proof -
  let ?d0 = "d\<lparr>tbl_token := [], tbl_session := [], tbl_verification_record := [], tbl_resource := [],
             tbl_payment := [], tbl_transaction := [], tbl_subscription := []\<rparr>"
  let ?bs = "\<lambda>du. filter (\<lambda>b. UniversalId b = UserUniversalId du) (tbl_binding d)"
  from assms obtain rc dc ru du where
    prc: "ParseJwtTokenByApplication env reservedUserToken = Inr rc" and
    pdc: "ParseJwtTokenByApplication env deletedUserToken = Inr dc" and
    gr: "getUserByUniversalId env 0 d (ClaimsUniversalId rc) = Inr ru" and
    gd: "getUserByUniversalId env 1 d (ClaimsUniversalId dc) = Inr du" and
    flags: "\<not> IsDeleted ru" "\<not> IsDeleted du" and
    ne: "UserUniversalId ru \<noteq> UserUniversalId du" and
    load: "dbError env 2 = None" and
    tx: "mergeTransaction env d ru du (?bs du) = Inr (d', merged_auth_methods res)" and
    rid: "universal_id res = UserUniversalId ru" and did: "deleted_user_id res = UserUniversalId du"
    by (rule MergeUsers_success)
  from tx obtain s k where
    t: "transferAuthMethods env 4 (UserUniversalId ru) (?bs du) d [] = Inr (s, merged_auth_methods res, k)" and
    p: "purgeDeletedUser env k du s = Inr d'"
    by (rule mergeTransaction_success)
  from transfer_result [OF t] obtain new where
    s: "s = d\<lparr>tbl_binding := tbl_binding d @ new\<rparr>" by blast
  note pr = purge_result [OF p]
  from pr have "tbl_binding d' = filter (\<lambda>b. UniversalId b \<noteq> deleted_user_id res) (tbl_binding s)"
    by (simp add: did)
  then have none: "filter (\<lambda>b. UniversalId b = deleted_user_id res) (tbl_binding d') = []"
    by (simp add: filter_empty_conv)
  from getUser_found [OF gd] have f: "find (\<lambda>u. UserUniversalId u = deleted_user_id res) (tbl_user d) = Some du"
    by (simp add: did)
  have rows: "\<exists>deletedUser.
          find (\<lambda>u. UserUniversalId u = deleted_user_id res) (tbl_user d) = Some deletedUser
        \<and> tbl_user d' = filter (\<lambda>u. u \<noteq> deletedUser) (tbl_user d)
        \<and> tbl_token d' = filter (\<lambda>r. row_user r \<noteq> Name deletedUser) (tbl_token d)
        \<and> tbl_session d' =
            filter (\<lambda>r. \<not> (session_owner r = Owner deletedUser \<and> session_name r = Name deletedUser))
              (tbl_session d)
        \<and> tbl_verification_record d' =
            filter (\<lambda>r. row_user r \<noteq> GetId deletedUser) (tbl_verification_record d)
        \<and> tbl_resource d' = filter (\<lambda>r. row_user r \<noteq> Name deletedUser) (tbl_resource d)
        \<and> tbl_payment d' = filter (\<lambda>r. row_user r \<noteq> Name deletedUser) (tbl_payment d)
        \<and> tbl_transaction d' = filter (\<lambda>r. row_user r \<noteq> Name deletedUser) (tbl_transaction d)
        \<and> tbl_subscription d' = filter (\<lambda>r. row_user r \<noteq> Name deletedUser) (tbl_subscription d)"
  proof (intro exI conjI)
    show "find (\<lambda>u. UserUniversalId u = deleted_user_id res) (tbl_user d) = Some du" by (rule f)
  qed (simp_all add: pr s)
  have "tbl_binding ?d0 = tbl_binding d" by simp
  from mergeTransaction_frame [OF this tx] obtain d0' where
    tx0: "mergeTransaction env ?d0 ru du (?bs du) = Inr (d0', merged_auth_methods res)" by blast
  have users0: "tbl_user ?d0 = tbl_user d" by simp
  have gr0: "getUserByUniversalId env 0 ?d0 (ClaimsUniversalId rc) = Inr ru"
    unfolding getUserByUniversalId_def users0 using gr by (simp only: getUserByUniversalId_def)
  have gd0: "getUserByUniversalId env 1 ?d0 (ClaimsUniversalId dc) = Inr du"
    unfolding getUserByUniversalId_def users0 using gd by (simp only: getUserByUniversalId_def)
  have bindings0: "tbl_binding ?d0 = tbl_binding d" by simp
  have l0: "GetUserIdentityBindingsByUniversalId env 2 ?d0 (UserUniversalId du) = Inr (?bs du)"
    unfolding GetUserIdentityBindingsByUniversalId_def bindings0 using load by simp
  have res: "res = \<lparr>universal_id = UserUniversalId ru, deleted_user_id = UserUniversalId du,
                   merged_auth_methods = merged_auth_methods res\<rparr>"
    using rid did by simp
  have "MergeUsers env ?d0 reservedUserToken deletedUserToken = (Inr res, d0')"
    unfolding MergeUsers_def using prc pdc gr0 gd0 flags ne l0 tx0 res
    by (simp del: db.simps)
  then have again: "fst (MergeUsers env ?d0 reservedUserToken deletedUserToken) = Inr res" by simp
  show ?thesis
  proof (intro conjI)
    show "filter (\<lambda>b. UniversalId b = deleted_user_id res) (tbl_binding d') = []" by (rule none)
    show "fst (MergeUsers env ?d0 reservedUserToken deletedUserToken) = Inr res" by (rule again)
  qed (rule rows)
qed

text \<open>
  bob (\<open>UB\<close>) is merged into alice: his bindings, token, session, verification
  record, payment, subscription and user row are gone, carol's payment stays, and the
  empty resource and transaction tables are no obstacle.
\<close>

theorem merge_purges_deleted_user_witness:
  "fst (MergeUsers env_ok store_shared ''tokA'' ''tokB'') =
     Inr \<lparr>universal_id = ''UA'', deleted_user_id = ''UB'',
          merged_auth_methods = [\<lparr>auth_type = ''phone'', auth_value = ''555''\<rparr>]\<rparr>
   \<and> filter (\<lambda>b. UniversalId b = ''UB'')
        (tbl_binding (snd (MergeUsers env_ok store_shared ''tokA'' ''tokB''))) = []
   \<and> tbl_user (snd (MergeUsers env_ok store_shared ''tokA'' ''tokB'')) = [alice, carol]
   \<and> tbl_payment (snd (MergeUsers env_ok store_shared ''tokA'' ''tokB''))
       = [\<lparr>row_key = ''p2'', row_user = ''carol''\<rparr>]
   \<and> tbl_resource store_shared = []"
proof -
  obtain res d' where run: "MergeUsers env_ok store_shared ''tokA'' ''tokB'' = (Inr res, d')"
    and res: "res = \<lparr>universal_id = ''UA'', deleted_user_id = ''UB'',
          merged_auth_methods = [\<lparr>auth_type = ''phone'', auth_value = ''555''\<rparr>]\<rparr>"
    and u: "tbl_user d' = [alice, carol]"
    and pay: "tbl_payment d' = [\<lparr>row_key = ''p2'', row_user = ''carol''\<rparr>]"
    by (simp add: sample_defs merge_defs)
  from merge_purges_deleted_user [OF run]
  have "filter (\<lambda>b. UniversalId b = ''UB'') (tbl_binding d') = []"
    by (simp add: res)
  with run res u pay show ?thesis
    by (simp add: store_shared_def)
qed

lemma purge_failure:
  "n < 9 \<Longrightarrow> dbError env (k + n) = Some e \<Longrightarrow> (\<forall>j<n. dbError env (k + j) = None) \<Longrightarrow>
     purgeDeletedUser env k u s = Inl (StorageError e)"
proof -
  assume n: "n < 9" and e: "dbError env (k + n) = Some e" and b: "\<forall>j<n. dbError env (k + j) = None"
  have before: "dbError env (k + j) = None" if "j < n" for j
    using b that by blast
  from n have "n \<in> {0, 1, 2, 3, 4, 5, 6, 7, 8}" by auto
  then consider (bindings) "n = 0" | (tokens) "n = 1" | (sessions) "n = 2" | (verifications) "n = 3"
    | (resources) "n = 4" | (payments) "n = 5" | (transactions) "n = 6" | (subscriptions) "n = 7"
    | (account) "n = 8"
    by blast
  then show ?thesis
  proof cases
    case bindings
    with e  show ?thesis
      by (simp add: purgeDeletedUser_def Delete_def)
  next
    case tokens
    with e before [of 0] show ?thesis
      by (simp add: purgeDeletedUser_def Delete_def)
  next
    case sessions
    with e before [of 0] before [of 1] show ?thesis
      by (simp add: purgeDeletedUser_def Delete_def)
  next
    case verifications
    with e before [of 0] before [of 1] before [of 2] show ?thesis
      by (simp add: purgeDeletedUser_def Delete_def)
  next
    case resources
    with e before [of 0] before [of 1] before [of 2] before [of 3] show ?thesis
      by (simp add: purgeDeletedUser_def Delete_def)
  next
    case payments
    with e before [of 0] before [of 1] before [of 2] before [of 3] before [of 4] show ?thesis
      by (simp add: purgeDeletedUser_def Delete_def)
  next
    case transactions
    with e before [of 0] before [of 1] before [of 2] before [of 3] before [of 4] before [of 5] show ?thesis
      by (simp add: purgeDeletedUser_def Delete_def)
  next
    case subscriptions
    with e before [of 0] before [of 1] before [of 2] before [of 3] before [of 4] before [of 5] before [of 6] show ?thesis
      by (simp add: purgeDeletedUser_def Delete_def)
  next
    case account
    with e before [of 0] before [of 1] before [of 2] before [of 3] before [of 4] before [of 5] before [of 6] before [of 7] show ?thesis
      by (simp add: purgeDeletedUser_def Delete_def)
  qed
qed

text \<open>
  Claim C2. Whenever \<open>MergeUsers\<close> returns an error, the store is the one of before
  the call. The preconditions fail in this order, each before any write: the reserved
  token, the deleted token ("invalid ... token"); the reserved account, the deleted
  account ("does not exist"); the deletion flag of the reserved, then of the deleted
  account ("has been deleted"); equal universal identities ("cannot merge the same
  user"), in particular for one token given twice whose account exists and is not
  deleted. Past the preconditions, an error of the transaction (begin, transfer,
  deletion of the bindings, a purge, deletion of the account, commit) is returned as
  it is with the store of before the call; a storage error in one of the nine deletes
  is such an error.
\<close>

theorem merge_failure_atomic:
  "(isl (fst (MergeUsers env d rt dt)) \<longrightarrow> snd (MergeUsers env d rt dt) = d)
   \<and> (\<forall>e. ParseJwtTokenByApplication env rt = Inl e \<longrightarrow>
         MergeUsers env d rt dt = (Inl (InvalidReservedToken e), d))
   \<and> (\<forall>rc. ParseJwtTokenByApplication env rt = Inr rc \<longrightarrow>
        (\<forall>e. ParseJwtTokenByApplication env dt = Inl e \<longrightarrow>
           MergeUsers env d rt dt = (Inl (InvalidDeletedToken e), d))
      \<and> (\<forall>dc. ParseJwtTokenByApplication env dt = Inr dc \<longrightarrow>
          (\<forall>e. getUserByUniversalId env 0 d (ClaimsUniversalId rc) = Inl e \<longrightarrow>
             MergeUsers env d rt dt = (Inl (ReservedNotExist (ClaimsUniversalId rc) e), d))
        \<and> (\<forall>ru. getUserByUniversalId env 0 d (ClaimsUniversalId rc) = Inr ru \<longrightarrow>
            (\<forall>e. getUserByUniversalId env 1 d (ClaimsUniversalId dc) = Inl e \<longrightarrow>
               MergeUsers env d rt dt = (Inl (DeletedNotExist (ClaimsUniversalId dc) e), d))
          \<and> (\<forall>du. getUserByUniversalId env 1 d (ClaimsUniversalId dc) = Inr du \<longrightarrow>
              (IsDeleted ru \<longrightarrow> MergeUsers env d rt dt = (Inl (ReservedIsDeleted (GetId ru)), d))
            \<and> (\<not> IsDeleted ru \<and> IsDeleted du \<longrightarrow>
                 MergeUsers env d rt dt = (Inl (DeletedIsDeleted (GetId du)), d))
            \<and> (\<not> IsDeleted ru \<and> \<not> IsDeleted du \<and> (UserUniversalId ru = UserUniversalId du \<or> rt = dt) \<longrightarrow>
                 MergeUsers env d rt dt = (Inl CannotMergeSameUser, d))
            \<and> (\<forall>bs e. \<not> IsDeleted ru \<and> \<not> IsDeleted du \<and> UserUniversalId ru \<noteq> UserUniversalId du
                  \<and> GetUserIdentityBindingsByUniversalId env 2 d (UserUniversalId du) = Inr bs
                  \<and> mergeTransaction env d ru du bs = Inl e \<longrightarrow>
                 MergeUsers env d rt dt = (Inl e, d))))))
   \<and> (\<forall>ru du bs s m k i e. dbError env 3 = None
         \<and> transferAuthMethods env 4 (UserUniversalId ru) bs d [] = Inr (s, m, k)
         \<and> i < 9 \<and> dbError env (k + i) = Some e \<and> (\<forall>j<i. dbError env (k + j) = None) \<longrightarrow>
         mergeTransaction env d ru du bs = Inl (StorageError e))"
proof (intro conjI allI impI)
  assume "isl (fst (MergeUsers env d rt dt))"
  then show "snd (MergeUsers env d rt dt) = d"
    unfolding MergeUsers_def
    by (cases "ParseJwtTokenByApplication env rt"; cases "ParseJwtTokenByApplication env dt")
      (auto split: sum.splits prod.splits if_splits)
next
  fix e
  assume "ParseJwtTokenByApplication env rt = Inl e"
  then show "MergeUsers env d rt dt = (Inl (InvalidReservedToken e), d)"
    by (simp add: MergeUsers_def)
next
  fix rc e
  assume "ParseJwtTokenByApplication env rt = Inr rc" "ParseJwtTokenByApplication env dt = Inl e"
  then show "MergeUsers env d rt dt = (Inl (InvalidDeletedToken e), d)"
    by (simp add: MergeUsers_def)
next
  fix rc dc e
  assume "ParseJwtTokenByApplication env rt = Inr rc" "ParseJwtTokenByApplication env dt = Inr dc"
    "getUserByUniversalId env 0 d (ClaimsUniversalId rc) = Inl e"
  then show "MergeUsers env d rt dt = (Inl (ReservedNotExist (ClaimsUniversalId rc) e), d)"
    by (simp add: MergeUsers_def)
next
  fix rc dc ru e
  assume "ParseJwtTokenByApplication env rt = Inr rc" "ParseJwtTokenByApplication env dt = Inr dc"
    "getUserByUniversalId env 0 d (ClaimsUniversalId rc) = Inr ru"
    "getUserByUniversalId env 1 d (ClaimsUniversalId dc) = Inl e"
  then show "MergeUsers env d rt dt = (Inl (DeletedNotExist (ClaimsUniversalId dc) e), d)"
    by (simp add: MergeUsers_def)
next
  fix rc dc ru du
  assume "ParseJwtTokenByApplication env rt = Inr rc" "ParseJwtTokenByApplication env dt = Inr dc"
    "getUserByUniversalId env 0 d (ClaimsUniversalId rc) = Inr ru"
    "getUserByUniversalId env 1 d (ClaimsUniversalId dc) = Inr du" "IsDeleted ru"
  then show "MergeUsers env d rt dt = (Inl (ReservedIsDeleted (GetId ru)), d)"
    by (simp add: MergeUsers_def)
next
  fix rc dc ru du
  assume "ParseJwtTokenByApplication env rt = Inr rc" "ParseJwtTokenByApplication env dt = Inr dc"
    "getUserByUniversalId env 0 d (ClaimsUniversalId rc) = Inr ru"
    "getUserByUniversalId env 1 d (ClaimsUniversalId dc) = Inr du" "\<not> IsDeleted ru \<and> IsDeleted du"
  then show "MergeUsers env d rt dt = (Inl (DeletedIsDeleted (GetId du)), d)"
    by (simp add: MergeUsers_def)
next
  fix rc dc ru du
  assume p: "ParseJwtTokenByApplication env rt = Inr rc" "ParseJwtTokenByApplication env dt = Inr dc"
    and g: "getUserByUniversalId env 0 d (ClaimsUniversalId rc) = Inr ru"
    "getUserByUniversalId env 1 d (ClaimsUniversalId dc) = Inr du"
    and h: "\<not> IsDeleted ru \<and> \<not> IsDeleted du \<and> (UserUniversalId ru = UserUniversalId du \<or> rt = dt)"
  have "UserUniversalId ru = UserUniversalId du"
  proof (cases "rt = dt")
    case True
    with p have "rc = dc" by simp
    with getUser_found [OF g(1)] getUser_found [OF g(2)] show ?thesis by simp
  next
    case False
    with h show ?thesis by simp
  qed
  with p g h show "MergeUsers env d rt dt = (Inl CannotMergeSameUser, d)"
    by (simp add: MergeUsers_def)
next
  fix rc dc ru du bs e
  assume "ParseJwtTokenByApplication env rt = Inr rc" "ParseJwtTokenByApplication env dt = Inr dc"
    "getUserByUniversalId env 0 d (ClaimsUniversalId rc) = Inr ru"
    "getUserByUniversalId env 1 d (ClaimsUniversalId dc) = Inr du"
    "\<not> IsDeleted ru \<and> \<not> IsDeleted du \<and> UserUniversalId ru \<noteq> UserUniversalId du
      \<and> GetUserIdentityBindingsByUniversalId env 2 d (UserUniversalId du) = Inr bs
      \<and> mergeTransaction env d ru du bs = Inl e"
  then show "MergeUsers env d rt dt = (Inl e, d)"
    by (simp add: MergeUsers_def)
next
  fix ru du :: User and bs s m k i e
  assume h: "dbError env 3 = None
         \<and> transferAuthMethods env 4 (UserUniversalId ru) bs d [] = Inr (s, m, k)
         \<and> i < 9 \<and> dbError env (k + i) = Some e \<and> (\<forall>j<i. dbError env (k + j) = None)"
  then have "purgeDeletedUser env k du s = Inl (StorageError e)"
    by (intro purge_failure [of i]) simp_all
  with h show "mergeTransaction env d ru du bs = Inl (StorageError e)"
    by (simp add: mergeTransaction_def)
qed

text \<open>
  On the sample store: a malformed token; alice's token given twice; and a storage
  layer that rejects the delete of the payments (statement 12, after bob's phone
  number was copied and his bindings, tokens, session, verification record and
  resources were deleted in the transaction): the store is untouched each time.
\<close>

theorem merge_failure_atomic_witness:
  "MergeUsers env_ok store_shared ''forged'' ''tokB''
     = (Inl (InvalidReservedToken (TokenError ''token is malformed'')), store_shared)
   \<and> MergeUsers env_ok store_shared ''tokA'' ''tokA'' = (Inl CannotMergeSameUser, store_shared)
   \<and> MergeUsers (env_fault (\<lambda>k. if k = 12 then Some ''payment table is locked'' else None))
        store_shared ''tokA'' ''tokB''
     = (Inl (StorageError ''payment table is locked''), store_shared)"
proof -
  let ?env = "env_fault (\<lambda>k. if k = 12 then Some ''payment table is locked'' else None)"
  have a: "MergeUsers env_ok store_shared ''forged'' ''tokB''
     = (Inl (InvalidReservedToken (TokenError ''token is malformed'')), store_shared)"
    using merge_failure_atomic [of env_ok store_shared "''forged''" "''tokB''"]
    by (simp add: tokens_def env_fault_def env_ok_def)
  have b: "MergeUsers env_ok store_shared ''tokA'' ''tokA'' = (Inl CannotMergeSameUser, store_shared)"
    using merge_failure_atomic [of env_ok store_shared "''tokA''" "''tokA''"]
    by (simp add: sample_defs getUserByUniversalId_def)
  have f: "fst (MergeUsers ?env store_shared ''tokA'' ''tokB'') = Inl (StorageError ''payment table is locked'')"
    by (simp add: sample_defs merge_defs)
  then have "isl (fst (MergeUsers ?env store_shared ''tokA'' ''tokB''))" by simp
  with merge_failure_atomic [of ?env store_shared "''tokA''" "''tokB''"]
  have "snd (MergeUsers ?env store_shared ''tokA'' ''tokB'') = store_shared" by blast
  with f have c: "MergeUsers ?env store_shared ''tokA'' ''tokB''
     = (Inl (StorageError ''payment table is locked''), store_shared)"
    by (simp add: prod_eq_iff)
  from a b c show ?thesis by simp
qed

section \<open>Uniqueness of credentials\<close>

lemma unique_credentials_iff:
  "unique_credentials tbl \<longleftrightarrow>
     (\<forall>b1\<in>set tbl. \<forall>b2\<in>set tbl.
        AuthType b1 = AuthType b2 \<and> AuthValue b1 = AuthValue b2 \<longrightarrow> UniversalId b1 = UniversalId b2)"
  by (simp add: unique_credentials_def list_all_iff)

lemma unique_credentials_subset:
  assumes "unique_credentials tbl" "set tbl' \<subseteq> set tbl"
  shows "unique_credentials tbl'"
  unfolding unique_credentials_iff
proof (intro ballI impI)
  fix b1 b2
  assume "b1 \<in> set tbl'" "b2 \<in> set tbl'"
    and c: "AuthType b1 = AuthType b2 \<and> AuthValue b1 = AuthValue b2"
  with assms(2) have "b1 \<in> set tbl" "b2 \<in> set tbl" by auto
  with assms(1) c show "UniversalId b1 = UniversalId b2"
    unfolding unique_credentials_iff by blast
qed

lemma unique_credentials_snoc:
  assumes "unique_credentials tbl"
    and "\<forall>x\<in>set tbl. AuthType x = AuthType b \<and> AuthValue x = AuthValue b \<longrightarrow> UniversalId x = UniversalId b"
  shows "unique_credentials (tbl @ [b])"
  unfolding unique_credentials_iff
proof (intro ballI impI)
  fix b1 b2
  assume m: "b1 \<in> set (tbl @ [b])" "b2 \<in> set (tbl @ [b])"
    and c: "AuthType b1 = AuthType b2 \<and> AuthValue b1 = AuthValue b2"
  from m consider "b1 \<in> set tbl" "b2 \<in> set tbl" | "b1 \<in> set tbl" "b2 = b"
    | "b1 = b" "b2 \<in> set tbl" | "b1 = b" "b2 = b"
    by auto
  then show "UniversalId b1 = UniversalId b2"
  proof cases
    case 1
    with assms(1) c show ?thesis unfolding unique_credentials_iff by blast
  next
    case 2
    with assms(2) c show ?thesis by simp
  next
    case 3
    with assms(2) c show ?thesis by simp
  next
    case 4
    then show ?thesis by simp
  qed
qed

text \<open>Bind, unbind and merge keep the credentials unique, whatever the storage layer enforces.\<close>

lemma bind_preserves_unique:
  assumes "unique_credentials (tbl_binding d)"
  shows "unique_credentials (tbl_binding (snd (AddUserIdentityBindingForUser env d universalId authType authValue)))"
proof (cases "fst (AddUserIdentityBindingForUser env d universalId authType authValue)")
  case (Inl e)
  then have "snd (AddUserIdentityBindingForUser env d universalId authType authValue) = d"
    by (simp add: AddUserIdentityBindingForUser_def GetUserIdentityBindingByAuth_def
          AddUserIdentityBinding_def Let_def split: sum.splits option.splits if_splits)
  with assms show ?thesis by simp
next
  case (Inr b)
  show ?thesis
  proof (cases "find (same_auth authType authValue) (tbl_binding d)")
    case (Some x)
    then have "snd (AddUserIdentityBindingForUser env d universalId authType authValue) = d"
      by (simp add: AddUserIdentityBindingForUser_def GetUserIdentityBindingByAuth_def
            split: option.splits)
    with assms show ?thesis by simp
  next
    case None
    let ?new = "\<lparr>Id = GenerateId env 1, UniversalId = universalId, AuthType = authType,
                 AuthValue = authValue, CreatedTime = GetCurrentTime env 1\<rparr>"
    from None have free: "\<forall>x\<in>set (tbl_binding d). \<not> (AuthType x = authType \<and> AuthValue x = authValue)"
      by (simp add: find_None_iff same_auth_def)
    from Inr None have "tbl_binding (snd (AddUserIdentityBindingForUser env d universalId authType authValue))
        = tbl_binding d @ [?new]"
      by (auto simp: AddUserIdentityBindingForUser_def GetUserIdentityBindingByAuth_def
            AddUserIdentityBinding_def Insert_def Let_def split: sum.splits option.splits if_splits)
    moreover from assms free have "unique_credentials (tbl_binding d @ [?new])"
      by (intro unique_credentials_snoc) auto
    ultimately show ?thesis by simp
  qed
qed

lemma unbind_preserves_unique:
  assumes "unique_credentials (tbl_binding d)"
  shows "unique_credentials (tbl_binding (snd (RemoveUserIdentityBindingForUser env d universalId authType)))"
proof -
  have "set (tbl_binding (snd (RemoveUserIdentityBindingForUser env d universalId authType)))
      \<subseteq> set (tbl_binding d)"
    by (auto simp: RemoveUserIdentityBindingForUser_def GetUserIdentityBindingsByUniversalId_def
          DeleteUserIdentityBinding_def split: sum.splits option.splits if_splits)
  with assms show ?thesis by (rule unique_credentials_subset)
qed

lemma MergeUsers_failure:
  "fst (MergeUsers env d rt dt) = Inl e \<Longrightarrow> snd (MergeUsers env d rt dt) = d"
  unfolding MergeUsers_def
  by (cases "ParseJwtTokenByApplication env rt"; cases "ParseJwtTokenByApplication env dt")
    (auto split: sum.splits prod.splits if_splits)

lemma merge_table:
  assumes "MergeUsers env d rt dt = (Inr res, d')"
  obtains new where
    "universal_id res \<noteq> deleted_user_id res"
    "tbl_binding d' = filter (\<lambda>b. UniversalId b \<noteq> deleted_user_id res) (tbl_binding d) @ new"
    "map cred new = not_yet_bound (creds_of (universal_id res) (tbl_binding d))
        (creds_of (deleted_user_id res) (tbl_binding d))"
    "\<forall>r\<in>set new. UniversalId r = universal_id res"
proof -
  from assms obtain ru du where
    ne: "UserUniversalId ru \<noteq> UserUniversalId du" and
    tx: "mergeTransaction env d ru du (filter (\<lambda>b. UniversalId b = UserUniversalId du) (tbl_binding d))
       = Inr (d', merged_auth_methods res)" and
    rid: "universal_id res = UserUniversalId ru" and did: "deleted_user_id res = UserUniversalId du"
    by (rule MergeUsers_success)
  from tx obtain s k where
    t: "transferAuthMethods env 4 (UserUniversalId ru)
          (filter (\<lambda>b. UniversalId b = UserUniversalId du) (tbl_binding d)) d []
        = Inr (s, merged_auth_methods res, k)" and
    p: "purgeDeletedUser env k du s = Inr d'"
    by (rule mergeTransaction_success)
  from transfer_result [OF t] obtain new where
    s: "s = d\<lparr>tbl_binding := tbl_binding d @ new\<rparr>" and
    nyb: "map cred new = not_yet_bound (creds_of (universal_id res) (tbl_binding d))
        (creds_of (deleted_user_id res) (tbl_binding d))" and
    mint: "list_all (minted env (universal_id res) (tbl_binding d)) new"
    unfolding rid did creds_of_def by auto
  from mint have owner: "\<forall>r\<in>set new. UniversalId r = universal_id res"
    by (simp add: list_all_iff minted_def)
  from ne rid did have ne': "universal_id res \<noteq> deleted_user_id res" by simp
  from owner ne' have keep: "filter (\<lambda>b. UniversalId b \<noteq> deleted_user_id res) new = new"
    by (simp add: filter_id_conv)
  from purge_result [OF p]
  have "tbl_binding d' = filter (\<lambda>b. UniversalId b \<noteq> deleted_user_id res) (tbl_binding s)"
    by (simp add: did)
  with s keep have tbl: "tbl_binding d' = filter (\<lambda>b. UniversalId b \<noteq> deleted_user_id res) (tbl_binding d) @ new"
    by simp
  show ?thesis by (rule that [OF ne' tbl nyb owner])
qed

lemma merge_preserves_unique:
  assumes u: "unique_credentials (tbl_binding d)"
  shows "unique_credentials (tbl_binding (snd (MergeUsers env d rt dt)))"
proof (cases "fst (MergeUsers env d rt dt)")
  case (Inl e)
  then have "snd (MergeUsers env d rt dt) = d" by (rule MergeUsers_failure)
  with u show ?thesis by simp
next
  case (Inr res)
  then have "MergeUsers env d rt dt = (Inr res, snd (MergeUsers env d rt dt))"
    by (simp add: prod_eq_iff)
  then obtain new where
    ne: "universal_id res \<noteq> deleted_user_id res" and
    tbl: "tbl_binding (snd (MergeUsers env d rt dt))
        = filter (\<lambda>b. UniversalId b \<noteq> deleted_user_id res) (tbl_binding d) @ new" and
    nyb: "map cred new = not_yet_bound (creds_of (universal_id res) (tbl_binding d))
        (creds_of (deleted_user_id res) (tbl_binding d))" and
    owner: "\<forall>r\<in>set new. UniversalId r = universal_id res"
    by (rule merge_table)
  let ?old = "filter (\<lambda>b. UniversalId b \<noteq> deleted_user_id res) (tbl_binding d)"
  have from_deleted: "\<exists>b'\<in>set (tbl_binding d). UniversalId b' = deleted_user_id res \<and> cred b' = cred r"
    if "r \<in> set new" for r
  proof -
    from that have "cred r \<in> set (map cred new)" by simp
    with nyb have "cred r \<in> set (creds_of (deleted_user_id res) (tbl_binding d))"
      by (simp add: set_not_yet_bound)
    then show ?thesis by (auto simp: creds_of_def)
  qed
  have same: "cred x = cred y \<longleftrightarrow> AuthType x = AuthType y \<and> AuthValue x = AuthValue y" for x y
    by (simp add: cred_def)
  have clash: False
    if "x \<in> set ?old" "r \<in> set new" "AuthType x = AuthType r \<and> AuthValue x = AuthValue r" for x r
  proof -
    from from_deleted [OF that(2)] obtain b' where
      b': "b' \<in> set (tbl_binding d)" "UniversalId b' = deleted_user_id res" "cred b' = cred r" by blast
    from that(1) have x: "x \<in> set (tbl_binding d)" "UniversalId x \<noteq> deleted_user_id res" by auto
    from b'(3) that(3) have "AuthType x = AuthType b' \<and> AuthValue x = AuthValue b'"
      by (simp add: same)
    with u x(1) b'(1) have "UniversalId x = UniversalId b'"
      unfolding unique_credentials_iff by blast
    with x(2) b'(2) show False by simp
  qed
  have uo: "unique_credentials ?old"
    using u by (rule unique_credentials_subset) auto
  have "unique_credentials (?old @ new)"
    unfolding unique_credentials_iff
  proof (intro ballI impI)
    fix b1 b2
    assume m: "b1 \<in> set (?old @ new)" "b2 \<in> set (?old @ new)"
      and c: "AuthType b1 = AuthType b2 \<and> AuthValue b1 = AuthValue b2"
    from m consider "b1 \<in> set ?old" "b2 \<in> set ?old" | "b1 \<in> set ?old" "b2 \<in> set new"
      | "b1 \<in> set new" "b2 \<in> set ?old" | "b1 \<in> set new" "b2 \<in> set new"
      by auto
    then show "UniversalId b1 = UniversalId b2"
    proof cases
      case 1
      with uo c show ?thesis unfolding unique_credentials_iff by blast
    next
      case 2
      with clash [of b1 b2] c show ?thesis by simp
    next
      case 3
      with clash [of b2 b1] c show ?thesis by simp
    next
      case 4
      with owner show ?thesis by simp
    qed
  qed
  with tbl show ?thesis by simp
qed

text \<open>
  With the unique key on \<open>(auth_type, auth_value)\<close> the storage layer rejects a
  second binding of a credential, and the creation keeps the credentials unique; a
  merge then copies nothing, since the row of the deleted identity is still in the
  table when the copy is inserted.
\<close>

lemma create_preserves_unique_with_key:
  assumes "unique_auth env" "unique_credentials (tbl_binding session)"
    "createIdentityBindingsWithValue env session user universalId primaryProvider providerValue
       = Inr session'"
  shows "unique_credentials (tbl_binding session')"
proof -
  from assms(3) obtain b where
    ins: "Insert env 0 session b = Inr session'"
    by (auto simp: createIdentityBindingsWithValue_def Let_def split: if_splits prod.splits)
  with assms(1) have s': "tbl_binding session' = tbl_binding session @ [b]"
    and free: "\<not> list_ex (same_auth (AuthType b) (AuthValue b)) (tbl_binding session)"
    by (auto simp: Insert_def split: option.splits if_splits)
  from free have "\<forall>x\<in>set (tbl_binding session).
      AuthType x = AuthType b \<and> AuthValue x = AuthValue b \<longrightarrow> UniversalId x = UniversalId b"
    by (auto simp: list_ex_iff same_auth_def)
  with assms(2) s' show ?thesis by (simp add: unique_credentials_snoc)
qed

lemma transfer_with_key:
  "unique_auth env \<Longrightarrow> set bs \<subseteq> set (tbl_binding s) \<Longrightarrow>
   transferAuthMethods env k rid bs s merged = Inr (s', merged', k') \<Longrightarrow> merged' = merged \<and> s' = s"
proof (induction bs arbitrary: k)
  case Nil
  then show ?case by simp
next
  case (Cons b bs)
  from Cons.prems(3) have ok: "dbError env k = None"
    by (auto simp: checkAuthMethodExists_def split: option.splits)
  from Cons.prems(2) have "list_ex (same_auth (AuthType b) (AuthValue b)) (tbl_binding s)"
    by (auto simp: list_ex_iff same_auth_def)
  with Cons.prems(1) have "isl (Insert env (k + 1) s
      \<lparr>Id = GenerateId env (k + 1), UniversalId = rid, AuthType = AuthType b,
       AuthValue = AuthValue b, CreatedTime = GetCurrentTime env (k + 1)\<rparr>)"
    by (simp add: Insert_def split: option.splits)
  with Cons.prems(3) ok have "transferAuthMethods env (k + 1) rid bs s merged = Inr (s', merged', k')"
    by (auto simp: check_exists split: sum.splits if_splits)
  with Cons.IH [OF Cons.prems(1)] Cons.prems(2) show ?case by simp
qed

lemma merge_with_key_copies_nothing:
  assumes "unique_auth env" "MergeUsers env d rt dt = (Inr res, d')"
  shows "merged_auth_methods res = []"
proof -
  from assms(2) obtain ru du where
    tx: "mergeTransaction env d ru du (filter (\<lambda>b. UniversalId b = UserUniversalId du) (tbl_binding d))
       = Inr (d', merged_auth_methods res)"
    by (rule MergeUsers_success)
  then obtain s k where
    t: "transferAuthMethods env 4 (UserUniversalId ru)
          (filter (\<lambda>b. UniversalId b = UserUniversalId du) (tbl_binding d)) d []
        = Inr (s, merged_auth_methods res, k)"
    by (rule mergeTransaction_success)
  have "set (filter (\<lambda>b. UniversalId b = UserUniversalId du) (tbl_binding d)) \<subseteq> set (tbl_binding d)"
    by auto
  from transfer_with_key [OF assms(1) this t] show ?thesis by simp
qed

text \<open>
  Claim C7 at a failing input. The sample store has unique credentials, with
  \<open>email:a@x.com\<close> bound to \<open>UA\<close>. The creation of the binding of dave (\<open>UD\<close>, same
  e-mail address), on a table with the primary key only, inserts \<open>email:a@x.com\<close>
  for \<open>UD\<close> without a lookup: the credential has two owners.
\<close>

theorem create_breaks_uniqueness:
  "unique_credentials (tbl_binding store_unique)
   \<and> createIdentityBindings env_ok store_unique dave ''UD'' ''email'' =
       Inr (store_unique\<lparr>tbl_binding := tbl_binding store_unique @
              [\<lparr>Id = ''new'', UniversalId = ''UD'', AuthType = ''email'', AuthValue = ''a@x.com'',
                CreatedTime = ''t1''\<rparr>]\<rparr>)
   \<and> \<not> unique_credentials (tbl_binding store_unique @
              [\<lparr>Id = ''new'', UniversalId = ''UD'', AuthType = ''email'', AuthValue = ''a@x.com'',
                CreatedTime = ''t1''\<rparr>])"
proof (intro conjI)
  show "unique_credentials (tbl_binding store_unique)"
    by (simp add: unique_credentials_def sample_defs)
  show "createIdentityBindings env_ok store_unique dave ''UD'' ''email'' =
       Inr (store_unique\<lparr>tbl_binding := tbl_binding store_unique @
              [\<lparr>Id = ''new'', UniversalId = ''UD'', AuthType = ''email'', AuthValue = ''a@x.com'',
                CreatedTime = ''t1''\<rparr>]\<rparr>)"
    by (simp add: createIdentityBindings_def createIdentityBindingsWithValue_def getProviderValue_def
          autoDetectProviderType_def Insert_def Let_def sample_defs)
  show "\<not> unique_credentials (tbl_binding store_unique @
              [\<lparr>Id = ''new'', UniversalId = ''UD'', AuthType = ''email'', AuthValue = ''a@x.com'',
                CreatedTime = ''t1''\<rparr>])"
    by (simp add: unique_credentials_def sample_defs)
qed

end
